theory Spec2Isabelle
  imports Complex_Main "HOL-Library.Multiset"
begin

chapter \<open>The program\<close>

section \<open>Conventions of the embedding\<close>

text \<open>
  The repository is a TypeScript dashboard (\<^verbatim>\<open>src/lib/backendApi.ts\<close>,
  \<^verbatim>\<open>src/lib/mockData.ts\<close>, the pages under \<^verbatim>\<open>src/pages\<close>) and a small Express relay
  (\<^verbatim>\<open>server/emailServer.js\<close>). Each function below carries the name of the source
  function it embeds; the source text is quoted in front of it.

  \<^item> A JavaScript \<^verbatim>\<open>number\<close> is modelled by an exact \<^typ>\<open>real\<close>, or by an \<^typ>\<open>int\<close> where
    the code only ever produces integers (\<^verbatim>\<open>Math.floor\<close>). IEEE rounding, \<^verbatim>\<open>NaN\<close> and
    infinities are outside the model.
  \<^item> \<^verbatim>\<open>Math.random()\<close> is an effect. The model passes the sequence of its results
    explicitly: \<open>rnd k\<close> is the value returned by the \<open>k\<close>-th call, and every function
    that draws takes the number of calls made so far and returns the new count.
  \<^item> The clock is an effect too. A date is kept as its distance from the moment of the
    call (\<open>DaysAgo\<close>, \<open>MonthsAgo\<close>); its rendering as an ISO string is not modelled.
  \<^item> A thrown exception is a value: fallible operations return a sum type whose left
    injection is the thrown object.
  \<^item> \<^verbatim>\<open>Array.prototype.sort\<close> with a comparator is a stable sort (ECMAScript 2019). For a
    comparator that orders by a numeric key the stable sorted arrangement is unique;
    \<open>sort_cmp\<close> computes it by insertion.
  \<^item> Record fields that the source calls \<open>value\<close>, \<open>text\<close>, \<open>from\<close> or \<open>to\<close> are
    written \<open>val\<close>, \<open>mail_text\<close>, \<open>mail_from\<close>, \<open>mail_to\<close>: the source's names are
    reserved words here.
\<close>

section \<open>JavaScript strings and JSON values\<close>

text \<open>
  \<open>showNat\<close> is the decimal rendering of a non-negative integer, as \<open>String(n)\<close> and a
  template literal \<open>`${n}`\<close> produce it. \<open>digit_char\<close> is only applied to numbers
  below ten.
\<close>

definition digit_char :: "nat \<Rightarrow> char" where
  "digit_char d = ''0123456789'' ! d"

function showNat :: "nat \<Rightarrow> string" where
  "showNat n = (if n < 10 then [digit_char n] else showNat (n div 10) @ [digit_char (n mod 10)])"
  by pat_completeness auto
termination
  by (relation "measure (\<lambda>n. n)") auto

definition showInt :: "int \<Rightarrow> string" where
  "showInt i = (if i < 0 then CHR ''-'' # showNat (nat (- i)) else showNat (nat i))"

text \<open>\<open>s.padStart(n, "0")\<close> for a one-character pad string.\<close>

definition padStart :: "nat \<Rightarrow> char \<Rightarrow> string \<Rightarrow> string" where
  "padStart n c s = replicate (n - length s) c @ s"

text \<open>
  \<open>s.toLowerCase()\<close> on ASCII text: the letters A..Z move to a..z. Letters outside
  ASCII, which JavaScript lowers as well, are left as they are; the function is used for
  the wording of the generated email address and of the mail text only.
\<close>

definition lower_char :: "char \<Rightarrow> char" where
  "lower_char c =
     (case map_of (zip ''ABCDEFGHIJKLMNOPQRSTUVWXYZ'' ''abcdefghijklmnopqrstuvwxyz'') c of
        None \<Rightarrow> c
      | Some l \<Rightarrow> l)"

definition toLowerCase :: "string \<Rightarrow> string" where
  "toLowerCase s = map lower_char s"

text \<open>\<open>xs.join(sep)\<close> on strings.\<close>

fun join :: "string \<Rightarrow> string list \<Rightarrow> string" where
  "join sep [] = []"
| "join sep [x] = x"
| "join sep (x # y # ys) = x @ sep @ join sep (y # ys)"

text \<open>
  A value parsed from JSON. Numbers are restricted to integers; an object is the list of
  its members in the order of the text, and a later member with the same key wins, as
  in \<open>JSON.parse\<close>.
\<close>

datatype json =
    JNull
  | JBool bool
  | JNum int
  | JStr string
  | JArr "json list"
  | JObj "(string \<times> json) list"

text \<open>
  \<open>v.key\<close> for a value that is not \<open>null\<close>: \<open>None\<close> stands for \<open>undefined\<close>. Only an
  object has members; the inherited properties of strings and arrays (\<open>length\<close> and the
  methods) are not among the keys the program reads.
\<close>

fun get_member :: "json \<Rightarrow> string \<Rightarrow> json option" where
  "get_member (JObj ms) key = map_of (rev ms) key"
| "get_member _ key = None"

text \<open>Truthiness of a possibly undefined value, as \<open>!v\<close> and \<open>v || w\<close> test it.\<close>

fun truthy :: "json option \<Rightarrow> bool" where
  "truthy None = False"
| "truthy (Some JNull) = False"
| "truthy (Some (JBool b)) = b"
| "truthy (Some (JNum n)) = (n \<noteq> 0)"
| "truthy (Some (JStr s)) = (s \<noteq> [])"
| "truthy (Some (JArr xs)) = True"
| "truthy (Some (JObj ms)) = True"

text \<open>
  \<open>String(v)\<close>, which is also what a template literal and \<open>new Error(v)\<close> apply to a
  value. \<open>None\<close> means that the conversion throws a \<open>TypeError\<close>. An array joins its
  elements with commas (\<open>null\<close> elements as the empty string). An object parsed from
  JSON is \<open>[object Object]\<close> unless it has an own member \<open>toString\<close>: that member
  hides \<open>Object.prototype.toString\<close> and, not being a function, leaves the object
  without a primitive value. Numbers are rendered in decimal, as JavaScript renders
  integers below \<open>10^21\<close>.
\<close>

fun js_String :: "json \<Rightarrow> string option"
  and js_join_elem :: "json \<Rightarrow> string option" where
  "js_String JNull = Some ''null''"
| "js_String (JBool b) = Some (if b then ''true'' else ''false'')"
| "js_String (JNum n) = Some (showInt n)"
| "js_String (JStr s) = Some s"
| "js_String (JArr xs) = map_option (join '','') (those (map js_join_elem xs))"
| "js_String (JObj ms) =
     (if map_of ms ''toString'' = None then Some ''[object Object]'' else None)"
| "js_join_elem JNull = Some []"
| "js_join_elem (JBool b) = Some (if b then ''true'' else ''false'')"
| "js_join_elem (JNum n) = Some (showInt n)"
| "js_join_elem (JStr s) = Some s"
| "js_join_elem (JArr xs) = map_option (join '','') (those (map js_join_elem xs))"
| "js_join_elem (JObj ms) =
     (if map_of ms ''toString'' = None then Some ''[object Object]'' else None)"

text \<open>\<open>String(v)\<close> of a possibly undefined value.\<close>

fun js_String_opt :: "json option \<Rightarrow> string option" where
  "js_String_opt None = Some ''undefined''"
| "js_String_opt (Some v) = js_String v"

section \<open>Risk level helpers of the explainability page\<close>

text \<open>
  \<^verbatim>\<open>
  const getDelinquencyRiskLevel = (probability: number): string => {
    const pct = probability * 100;
    if (pct >= 75) return "High Risk";
    if (pct >= 40) return "Medium Risk";
    return "Low Risk";
  };
  \<close>
\<close>

definition getDelinquencyRiskLevel :: "real \<Rightarrow> string" where
  "getDelinquencyRiskLevel probability =
     (let pct = probability * 100 in
      if pct \<ge> 75 then ''High Risk''
      else if pct \<ge> 40 then ''Medium Risk''
      else ''Low Risk'')"

text \<open>
  The two sibling helpers of the same page. They take a score already scaled to 0..100
  (the page calls them with \<open>score * 100\<close>).
  \<^verbatim>\<open>
  const getBehaviouralRiskLevel = (score: number): string => {
    if (score >= 70) return "Strong";
    if (score >= 40) return "Moderate";
    return "Weak";
  };
  const getLiquidityStabilityLevel = (score: number): string => {
    if (score >= 70) return "Strong Stability";
    if (score >= 40) return "Moderate Stability";
    return "Low Stability";
  };
  \<close>
\<close>

definition getBehaviouralRiskLevel :: "real \<Rightarrow> string" where
  "getBehaviouralRiskLevel score =
     (if score \<ge> 70 then ''Strong''
      else if score \<ge> 40 then ''Moderate''
      else ''Weak'')"

definition getLiquidityStabilityLevel :: "real \<Rightarrow> string" where
  "getLiquidityStabilityLevel score =
     (if score \<ge> 70 then ''Strong Stability''
      else if score \<ge> 40 then ''Moderate Stability''
      else ''Low Stability'')"

section \<open>Sorting with a comparator\<close>

text \<open>
  \<open>arr.sort(cmp)\<close> places \<open>a\<close> before \<open>b\<close> when \<open>cmp(a, b) < 0\<close> and keeps the original
  order of elements that compare equal. \<open>insert_cmp\<close> puts an element in front of the first
  element that it need not follow; \<open>sort_cmp\<close> inserts from the right, so that of two
  equal elements the earlier one stays first.
\<close>

fun insert_cmp :: "('a \<Rightarrow> 'a \<Rightarrow> real) \<Rightarrow> 'a \<Rightarrow> 'a list \<Rightarrow> 'a list" where
  "insert_cmp cmp x [] = [x]"
| "insert_cmp cmp x (y # ys) =
     (if cmp x y \<le> 0 then x # y # ys else y # insert_cmp cmp x ys)"

definition sort_cmp :: "('a \<Rightarrow> 'a \<Rightarrow> real) \<Rightarrow> 'a list \<Rightarrow> 'a list" where
  "sort_cmp cmp xs = foldr (insert_cmp cmp) xs []"

section \<open>Contributing features of the risk explorer page\<close>

text \<open>
  \<^verbatim>\<open>
  export interface CustomerDrilldown {
    customer_id: string;
    behavioural_score: number;
    liquidity_score: number;
    delinquency_probability: number;
    contributing_features: Record<string, number>;
  }
  \<close>
  \<open>Object.entries\<close> lists the own properties of \<open>contributing_features\<close> in property
  order, so the map is kept as the list of its entries. The first field is written
  \<open>dd_customer_id\<close> to keep it apart from the field of \<open>CustomerRiskItem\<close>.
\<close>

record CustomerDrilldown =
  dd_customer_id :: string
  behavioural_score :: real
  liquidity_score :: real
  delinquency_probability :: real
  contributing_features :: "(string \<times> real) list"

text \<open>
  An element \<open>{ feature, value }\<close> of the derived series. The objects of the program
  that carry a numeric \<open>value\<close> share the field \<open>val\<close> of one base record.
\<close>

record valued =
  val :: real

record feature_entry = valued +
  feature :: string

text \<open>
  \<^verbatim>\<open>
  const contributingSeries = useMemo(() => {
    if (!drilldown) return [] as { feature: string; value: number }[];
    return Object.entries(drilldown.contributing_features)
      .map(([feature, value]) => ({ feature, value }))
      .sort((a, b) => Math.abs(b.value) - Math.abs(a.value));
  }, [drilldown]);
  \<close>
  The page state \<open>drilldown\<close> is \<open>null\<close> until a drilldown has been fetched.
\<close>

definition contributingSeries :: "CustomerDrilldown option \<Rightarrow> feature_entry list" where
  "contributingSeries drilldown =
     (case drilldown of
        None \<Rightarrow> []
      | Some d \<Rightarrow>
          sort_cmp (\<lambda>a b. \<bar>val b\<bar> - \<bar>val a\<bar>)
            (map (\<lambda>(f, v). \<lparr>val = v, feature = f\<rparr>) (contributing_features d)))"

definition example_drilldown :: CustomerDrilldown where
  "example_drilldown =
     \<lparr>dd_customer_id = ''CUST_1'', behavioural_score = 0.5, liquidity_score = 0.5,
      delinquency_probability = 0.5,
      contributing_features =
        [(''Salary_Delay_Days'', 0.1), (''Savings_Drop_%'', - 0.5),
         (''Past_EMI_Delays_6M'', 0.3)]\<rparr>"

section \<open>The table of the alerts page\<close>

text \<open>
  \<^verbatim>\<open>
  export interface CustomerRiskItem {
    customer_id: string;
    risk_probability: number;
    risk_category: "LOW" | "MEDIUM" | "HIGH";
  }
  type InterventionStatus = "none" | "offered" | "accepted" | "declined";
  \<close>
  The two unions of string literals are datatypes; \<open>risk_level_string\<close> and
  \<open>status_string\<close> give the literal back where the page compares it with the value of a
  filter, which is a string (\<open>"all"\<close> or one of the literals).
\<close>

datatype risk_level = LOW | MEDIUM | HIGH

fun risk_level_string :: "risk_level \<Rightarrow> string" where
  "risk_level_string LOW = ''LOW''"
| "risk_level_string MEDIUM = ''MEDIUM''"
| "risk_level_string HIGH = ''HIGH''"

datatype InterventionStatus = none | offered | accepted | declined

fun status_string :: "InterventionStatus \<Rightarrow> string" where
  "status_string none = ''none''"
| "status_string offered = ''offered''"
| "status_string accepted = ''accepted''"
| "status_string declined = ''declined''"

record CustomerRiskItem =
  customer_id :: string
  risk_probability :: real
  risk_category :: risk_level

text \<open>
  \<^verbatim>\<open>
  const [interventionStatuses, setInterventionStatuses] =
    useState<Record<string, InterventionStatus>>({});
  const getStatus = (c: CustomerRiskItem) => interventionStatuses[c.customer_id] || "none";
  \<close>
\<close>

definition getStatus :: "(string \<rightharpoonup> InterventionStatus) \<Rightarrow> CustomerRiskItem \<Rightarrow> InterventionStatus" where
  "getStatus interventionStatuses c =
     (case interventionStatuses (customer_id c) of None \<Rightarrow> none | Some s \<Rightarrow> s)"

text \<open>
  \<^verbatim>\<open>
  const alertCustomers = customers
    .filter(c => c.risk_probability >= 0.3)
    .sort((a, b) => b.risk_probability - a.risk_probability)
    .filter(c => riskFilter === "all" || c.risk_category === riskFilter)
    .filter(c => {
      const status = interventionStatuses[c.customer_id] || "none";
      return statusFilter === "all" || status === statusFilter;
    });
  \<close>
\<close>

definition alertCustomers ::
  "CustomerRiskItem list \<Rightarrow> string \<Rightarrow> string \<Rightarrow> (string \<rightharpoonup> InterventionStatus)
     \<Rightarrow> CustomerRiskItem list" where
  "alertCustomers customers riskFilter statusFilter interventionStatuses =
     filter (\<lambda>c.
         let status = (case interventionStatuses (customer_id c) of None \<Rightarrow> none | Some s \<Rightarrow> s)
         in statusFilter = ''all'' \<or> status_string status = statusFilter)
       (filter (\<lambda>c. riskFilter = ''all'' \<or> risk_level_string (risk_category c) = riskFilter)
         (sort_cmp (\<lambda>a b. risk_probability b - risk_probability a)
           (filter (\<lambda>c. risk_probability c \<ge> 0.3) customers)))"

definition example_risk_list :: "CustomerRiskItem list" where
  "example_risk_list =
     [\<lparr>customer_id = ''CUST_1'', risk_probability = 0.25, risk_category = LOW\<rparr>,
      \<lparr>customer_id = ''CUST_2'', risk_probability = 0.45, risk_category = MEDIUM\<rparr>,
      \<lparr>customer_id = ''CUST_3'', risk_probability = 0.82, risk_category = HIGH\<rparr>,
      \<lparr>customer_id = ''CUST_4'', risk_probability = 0.35, risk_category = LOW\<rparr>]"

section \<open>The backend client\<close>

text \<open>
  The module \<^verbatim>\<open>src/lib/backendApi.ts\<close>. A value that a \<open>catch\<close> clause can receive is
  a \<open>thrown\<close>: \<open>Error m\<close> is an instance of \<open>Error\<close> (or of a subclass such as
  \<open>TypeError\<close> and \<open>SyntaxError\<close>) with message \<open>m\<close>; \<open>DOMException n m\<close> is a
  \<open>DOMException\<close> with name \<open>n\<close> and message \<open>m\<close>, which is an instance of \<open>Error\<close> as
  well since its prototype inherits from \<open>Error.prototype\<close>; \<open>Thrown v\<close> is any other
  value.
\<close>

datatype thrown = Error string | DOMException string string | Thrown json

fun instanceof_Error :: "thrown \<Rightarrow> bool" where
  "instanceof_Error (Error m) = True"
| "instanceof_Error (DOMException n m) = True"
| "instanceof_Error (Thrown v) = False"

fun instanceof_DOMException :: "thrown \<Rightarrow> bool" where
  "instanceof_DOMException (DOMException n m) = True"
| "instanceof_DOMException _ = False"

text \<open>
  \<open>error.name\<close> and \<open>error.message\<close> as the strings that the program compares with
  \<open>===\<close> against a string literal; \<open>None\<close> is a value that is not a string. The
  program reads them only behind an \<open>instanceof\<close> test, that is for the first two
  kinds of thrown value.
\<close>

fun error_name :: "thrown \<Rightarrow> string option" where
  "error_name (Error m) = Some ''Error''"
| "error_name (DOMException n m) = Some n"
| "error_name (Thrown v) = (case get_member v ''name'' of Some (JStr s) \<Rightarrow> Some s | _ \<Rightarrow> None)"

fun error_message :: "thrown \<Rightarrow> string option" where
  "error_message (Error m) = Some m"
| "error_message (DOMException n m) = Some m"
| "error_message (Thrown v) =
     (case get_member v ''message'' of Some (JStr s) \<Rightarrow> Some s | _ \<Rightarrow> None)"

text \<open>
  \<^verbatim>\<open>
  function normalizeFetchError(error: unknown, fallback: string): Error {
    if (error instanceof DOMException && error.name === "AbortError") {
      return new Error("Backend request timed out. Ensure FastAPI is running on http://localhost:8000");
    }
    if (error instanceof Error && error.message === "REQUEST_TIMEOUT") {
      return new Error("Backend request timed out. Ensure FastAPI is running on http://localhost:8000");
    }
    return new Error(fallback);
  }
  \<close>
\<close>

definition normalizeFetchError :: "thrown \<Rightarrow> string \<Rightarrow> thrown" where
  "normalizeFetchError error fallback =
     (if instanceof_DOMException error \<and> error_name error = Some ''AbortError''
      then Error ''Backend request timed out. Ensure FastAPI is running on http://localhost:8000''
      else if instanceof_Error error \<and> error_message error = Some ''REQUEST_TIMEOUT''
      then Error ''Backend request timed out. Ensure FastAPI is running on http://localhost:8000''
      else Error fallback)"

text \<open>
  The request that an operation passes to \<open>fetchWithTimeout\<close> (every request carries the
  header \<open>Content-Type: application/json\<close>; \<open>req_body\<close> is the value given to
  \<open>JSON.stringify\<close>), and the response it may receive. \<open>parsed\<close> is what
  \<open>response.json()\<close> yields: the parsed value, or \<open>Inl m\<close> when the body is not JSON
  and the call throws a \<open>SyntaxError\<close> with message \<open>m\<close>.
\<close>

record request =
  url :: string
  http_method :: string
  req_body :: "json option"

record response =
  status :: nat
  parsed :: "string + json"

definition ok :: "response \<Rightarrow> bool" where
  "ok r \<longleftrightarrow> 200 \<le> status r \<and> status r \<le> 299"

text \<open>
  \<open>await fetchWithTimeout(input, init)\<close> either yields a response or throws. The race of
  \<open>fetch\<close> against the timer inside \<open>fetchWithTimeout\<close> runs on the event loop of the
  browser; the operations below take its outcome as the function \<open>fetchWithTimeout\<close> from
  requests to outcomes.
\<close>

datatype fetch_outcome = Resolved response | Rejected thrown

definition API_BASE_URL :: string where
  "API_BASE_URL = ''http://localhost:8000''"

text \<open>
  Seven operations share one body, up to the request and the fallback message:
  \<^verbatim>\<open>
  export async function getPortfolioSummary(): Promise<PortfolioSummary> {
    try {
      const response = await fetchWithTimeout(`${API_BASE_URL}/portfolio/summary`, {
        method: "GET",
        headers: { "Content-Type": "application/json" },
      });
      if (!response.ok) throw new Error(`HTTP ${response.status}`);
      return await response.json();
    } catch (error) {
      console.error("Portfolio summary request failed:", error);
      throw normalizeFetchError(error, "Failed to load portfolio summary");
    }
  }
  \<close>
  \<open>request_with_fallback\<close> is that body; logging is not modelled.
\<close>

definition request_with_fallback ::
  "(request \<Rightarrow> fetch_outcome) \<Rightarrow> request \<Rightarrow> string \<Rightarrow> thrown + json" where
  "request_with_fallback fetchWithTimeout req fallback =
     (case fetchWithTimeout req of
        Rejected error \<Rightarrow> Inl (normalizeFetchError error fallback)
      | Resolved response \<Rightarrow>
          if \<not> ok response
          then Inl (normalizeFetchError (Error (''HTTP '' @ showNat (status response))) fallback)
          else (case parsed response of
                  Inl m \<Rightarrow> Inl (normalizeFetchError (Error m) fallback)
                | Inr v \<Rightarrow> Inr v))"

text \<open>
  The four operations that take a customer id share this body:
  \<^verbatim>\<open>
  export async function getCustomerData(customerId: string): Promise<CustomerData> {
    try {
      const response = await fetchWithTimeout(`${API_BASE_URL}/customer/${customerId}`, {
        method: "GET",
        headers: { "Content-Type": "application/json" },
      });
      if (!response.ok) {
        const error = await response.json();
        throw new Error(error.detail || `HTTP ${response.status}`);
      }
      return await response.json();
    } catch (error) {
      console.error("Failed to get customer data:", error);
      if (error instanceof Error) {
        throw error;
      }
      throw normalizeFetchError(error, "Failed to retrieve customer data");
    }
  }
  \<close>
  \<open>rethrow\<close> is the \<open>catch\<close> clause. Reading \<open>error.detail\<close> of a body that parsed to
  \<open>null\<close> throws a \<open>TypeError\<close>, and so does \<open>new Error(error.detail)\<close> for a detail
  that cannot be converted to a string; both are thrown inside the \<open>try\<close> and caught by
  the same clause. Their messages are the engine's.
\<close>

definition rethrow :: "thrown \<Rightarrow> string \<Rightarrow> thrown" where
  "rethrow error fallback =
     (if instanceof_Error error then error else normalizeFetchError error fallback)"

definition request_with_detail ::
  "(request \<Rightarrow> fetch_outcome) \<Rightarrow> request \<Rightarrow> string \<Rightarrow> thrown + json" where
  "request_with_detail fetchWithTimeout req fallback =
     (case fetchWithTimeout req of
        Rejected error \<Rightarrow> Inl (rethrow error fallback)
      | Resolved response \<Rightarrow>
          if \<not> ok response
          then (case parsed response of
                  Inl m \<Rightarrow> Inl (rethrow (Error m) fallback)
                | Inr JNull \<Rightarrow>
                    Inl (rethrow (Error ''Cannot read properties of null (reading 'detail')'')
                           fallback)
                | Inr error \<Rightarrow>
                    (let detail = get_member error ''detail'' in
                     Inl (rethrow
                            (if truthy detail
                             then (case js_String_opt detail of
                                     Some s \<Rightarrow> Error s
                                   | None \<Rightarrow> Error ''Cannot convert object to primitive value'')
                             else Error (''HTTP '' @ showNat (status response)))
                            fallback)))
          else (case parsed response of
                  Inl m \<Rightarrow> Inl (rethrow (Error m) fallback)
                | Inr v \<Rightarrow> Inr v))"

text \<open>
  The query of the two list operations:
  \<^verbatim>\<open>
  const query = typeof limit === "number" ? `?limit=${encodeURIComponent(limit)}` : "";
  \<close>
  with a limit that is a non-negative integer when it is given.
\<close>

definition limit_query :: "nat option \<Rightarrow> string" where
  "limit_query limit = (case limit of Some n \<Rightarrow> ''?limit='' @ showNat n | None \<Rightarrow> [])"

definition GET :: "string \<Rightarrow> request" where
  "GET path = \<lparr>url = API_BASE_URL @ path, http_method = ''GET'', req_body = None\<rparr>"

definition POST :: "string \<Rightarrow> json \<Rightarrow> request" where
  "POST path v = \<lparr>url = API_BASE_URL @ path, http_method = ''POST'', req_body = Some v\<rparr>"

text \<open>The eleven public operations, in the order of the module.\<close>

definition checkBackendHealth :: "(request \<Rightarrow> fetch_outcome) \<Rightarrow> thrown + json" where
  "checkBackendHealth fetchWithTimeout =
     request_with_fallback fetchWithTimeout (GET ''/'')
       ''Unable to connect to backend. Ensure FastAPI server is running on http://localhost:8000''"

definition getCustomerList :: "(request \<Rightarrow> fetch_outcome) \<Rightarrow> nat option \<Rightarrow> thrown + json" where
  "getCustomerList fetchWithTimeout limit =
     request_with_fallback fetchWithTimeout (GET (''/customers'' @ limit_query limit))
       ''Unable to retrieve customer list from backend''"

definition getCustomerData :: "(request \<Rightarrow> fetch_outcome) \<Rightarrow> string \<Rightarrow> thrown + json" where
  "getCustomerData fetchWithTimeout customerId =
     request_with_detail fetchWithTimeout (GET (''/customer/'' @ customerId))
       ''Failed to retrieve customer data''"

definition predictRisk :: "(request \<Rightarrow> fetch_outcome) \<Rightarrow> string \<Rightarrow> thrown + json" where
  "predictRisk fetchWithTimeout customerId =
     request_with_detail fetchWithTimeout
       (POST ''/predict'' (JObj [(''customer_id'', JStr customerId)]))
       ''Prediction failed''"

definition getPortfolioSummary :: "(request \<Rightarrow> fetch_outcome) \<Rightarrow> thrown + json" where
  "getPortfolioSummary fetchWithTimeout =
     request_with_fallback fetchWithTimeout (GET ''/portfolio/summary'')
       ''Failed to load portfolio summary''"

definition getRiskTrend :: "(request \<Rightarrow> fetch_outcome) \<Rightarrow> thrown + json" where
  "getRiskTrend fetchWithTimeout =
     request_with_fallback fetchWithTimeout (GET ''/portfolio/trend'')
       ''Failed to load risk trend data''"

definition getFeatureImportance :: "(request \<Rightarrow> fetch_outcome) \<Rightarrow> thrown + json" where
  "getFeatureImportance fetchWithTimeout =
     request_with_fallback fetchWithTimeout (GET ''/portfolio/feature-importance'')
       ''Failed to load feature importance''"

definition getPortfolioHeatmap :: "(request \<Rightarrow> fetch_outcome) \<Rightarrow> thrown + json" where
  "getPortfolioHeatmap fetchWithTimeout =
     request_with_fallback fetchWithTimeout (GET ''/portfolio/heatmap'')
       ''Failed to load heatmap data''"

definition getCustomerRiskList :: "(request \<Rightarrow> fetch_outcome) \<Rightarrow> nat option \<Rightarrow> thrown + json" where
  "getCustomerRiskList fetchWithTimeout limit =
     request_with_fallback fetchWithTimeout (GET (''/customers/risk-list'' @ limit_query limit))
       ''Failed to load customer risk list''"

definition getCustomerDrilldown :: "(request \<Rightarrow> fetch_outcome) \<Rightarrow> string \<Rightarrow> thrown + json" where
  "getCustomerDrilldown fetchWithTimeout customerId =
     request_with_detail fetchWithTimeout (GET (''/customer/'' @ customerId @ ''/drilldown''))
       ''Failed to load customer drilldown''"

definition predictAndSendIntervention ::
  "(request \<Rightarrow> fetch_outcome) \<Rightarrow> string \<Rightarrow> thrown + json" where
  "predictAndSendIntervention fetchWithTimeout customerId =
     request_with_detail fetchWithTimeout
       (POST ''/predict-and-send-intervention'' (JObj [(''customer_id'', JStr customerId)]))
       ''Prediction and intervention failed''"

text \<open>A backend that answers every request with status 404 and body \<open>{"detail":"not found"}\<close>.\<close>

definition not_found_response :: response where
  "not_found_response = \<lparr>status = 404, parsed = Inr (JObj [(''detail'', JStr ''not found'')])\<rparr>"

definition not_found_backend :: "request \<Rightarrow> fetch_outcome" where
  "not_found_backend req = Resolved not_found_response"

section \<open>The email relay\<close>

text \<open>
  The server \<^verbatim>\<open>server/emailServer.js\<close>. An environment variable is a string or
  undefined; \<open>truthy_str\<close> and \<open>or_str\<close> are \<open>!!v\<close> and \<open>v || w\<close> on such values.
  \<^verbatim>\<open>
  const FIXED_TO_ADDRESS = process.env.FIXED_TO_ADDRESS || "sohamjagushte2@gmail.com";
  const smtpConfig = {
    host: process.env.SMTP_HOST,
    port: Number(process.env.SMTP_PORT || 587),
    secure: process.env.SMTP_SECURE === "true",
    auth: { user: process.env.SMTP_USER, pass: process.env.SMTP_PASS },
    from: process.env.SMTP_FROM || process.env.SMTP_USER,
  };
  const hasMissingSmtpConfig = () => {
    return !smtpConfig.host || !smtpConfig.auth.user || !smtpConfig.auth.pass || !smtpConfig.from;
  };
  \<close>
  \<open>port\<close> and \<open>secure\<close> only select how the transport connects; the transport is the
  parameter \<open>sendMail\<close> of the handler, so the two are left out.
\<close>

record env =
  SMTP_HOST :: "string option"
  SMTP_USER :: "string option"
  SMTP_PASS :: "string option"
  SMTP_FROM :: "string option"
  FIXED_TO_ADDRESS_env :: "string option"

definition truthy_str :: "string option \<Rightarrow> bool" where
  "truthy_str v = (case v of None \<Rightarrow> False | Some s \<Rightarrow> s \<noteq> [])"

definition or_str :: "string option \<Rightarrow> string option \<Rightarrow> string option" where
  "or_str v w = (if truthy_str v then v else w)"

definition FIXED_TO_ADDRESS :: "env \<Rightarrow> string" where
  "FIXED_TO_ADDRESS e =
     (case or_str (FIXED_TO_ADDRESS_env e) (Some ''sohamjagushte2@gmail.com'') of
        Some s \<Rightarrow> s
      | None \<Rightarrow> [])"

record smtp_config =
  host :: "string option"
  auth_user :: "string option"
  auth_pass :: "string option"
  from_address :: "string option"

definition smtpConfig :: "env \<Rightarrow> smtp_config" where
  "smtpConfig e =
     \<lparr>host = SMTP_HOST e, auth_user = SMTP_USER e, auth_pass = SMTP_PASS e,
      from_address = or_str (SMTP_FROM e) (SMTP_USER e)\<rparr>"

definition hasMissingSmtpConfig :: "smtp_config \<Rightarrow> bool" where
  "hasMissingSmtpConfig c \<longleftrightarrow>
     \<not> truthy_str (host c) \<or> \<not> truthy_str (auth_user c) \<or> \<not> truthy_str (auth_pass c)
     \<or> \<not> truthy_str (from_address c)"

text \<open>
  The message given to \<open>transporter.sendMail\<close>, without its \<open>html\<close> alternative (the same
  template with markup), and what the call yields: \<open>Sent id\<close> when the provider accepts
  the message and returns \<open>info.messageId = id\<close>, \<open>SendFailed e\<close> when it throws \<open>e\<close>.
\<close>

record mail =
  mail_from :: "string option"
  mail_to :: string
  subject :: string
  mail_text :: string

datatype send_outcome = Sent string | SendFailed thrown

text \<open>
  What becomes of a request in the handler: \<open>res.status(n).send(s)\<close>, or \<open>res.json(v)\<close>,
  which answers with status 200, or a \<open>TypeError\<close> that the handler throws before it
  has answered (\<open>Throws_TypeError\<close>); what Express then does with the request lies
  outside the handler.
\<close>

datatype relay_response = Send_text nat string | Send_json nat json | Throws_TypeError

fun response_status :: "relay_response \<Rightarrow> nat option" where
  "response_status (Send_text n s) = Some n"
| "response_status (Send_json n v) = Some n"
| "response_status Throws_TypeError = None"

text \<open>
  \<^verbatim>\<open>
  app.use(express.json());
  \<close>
  The JSON body parser runs before the handler. In its default strict mode it hands a
  request on in three cases only: with no parsed body (no body, or a content type other
  than JSON), with a body that is a JSON object, or with a body that is a JSON array.
  Any other body (\<open>null\<close>, a number, a string, a boolean, malformed text) it refuses
  itself with an error response, and the handler does not run. \<open>req_body\<close> is
  therefore the type of what the handler can find in \<open>req.body\<close>.
  \<^verbatim>\<open>
  const { customerId, customerName, topSignal, selectedIntervention, officerNotes } = req.body || {};
  \<close>
  \<open>request_field body key\<close> is the value that this statement binds to \<open>key\<close>. An array
  has none of the five keys.
\<close>

datatype req_body = No_body | Body_object "(string \<times> json) list" | Body_array "json list"

definition request_field :: "req_body \<Rightarrow> string \<Rightarrow> json option" where
  "request_field body key =
     (case body of
        No_body \<Rightarrow> None
      | Body_object ms \<Rightarrow> get_member (JObj ms) key
      | Body_array xs \<Rightarrow> None)"

text \<open>
  \<^verbatim>\<open>
  const subject = `Support Options Available \<emdash> ${customerId}`;
  const text = [
    `Dear ${customerName},`,
    "",
    "We have noticed some changes in your financial activity and would like to offer support.",
    `Our analysis indicates potential financial stress signals related to ${String(topSignal).toLowerCase()}.`,
    "",
    `We would like to offer you the following support option: ${selectedIntervention}.`,
    "",
    "Please contact your relationship manager to discuss this further.",
    "We are here to help you manage your finances effectively.",
    "",
    "Kind regards,",
    "Financial Support Team",
    officerNotes ? "" : undefined,
    officerNotes ? `Officer Notes: ${officerNotes}` : undefined,
  ].filter(Boolean).join("\n");
  \<close>
  \<open>filter(Boolean)\<close> drops the undefined entries and the empty strings. The dash of the
  subject is written as its UTF-8 bytes. Each \<open>${...}\<close> and \<open>String(...)\<close> converts a
  field to a string and throws a \<open>TypeError\<close> where \<open>js_String\<close> is \<open>None\<close>; the result is
  then \<open>None\<close>. \<open>officerNotes\<close> is converted only when it is truthy. The \<open>html\<close> body,
  built next, converts the same values and throws nothing more.
\<close>

definition email_subject :: "json option \<Rightarrow> string option" where
  "email_subject customerId =
     map_option
       (\<lambda>c. ''Support Options Available '' @ [CHR 0xE2, CHR 0x80, CHR 0x94] @ '' '' @ c)
       (js_String_opt customerId)"

definition email_text ::
  "json option \<Rightarrow> json option \<Rightarrow> json option \<Rightarrow> json option \<Rightarrow> string option" where
  "email_text customerName topSignal selectedIntervention notes =
     (case (js_String_opt customerName, js_String_opt topSignal,
            js_String_opt selectedIntervention,
            if truthy notes then js_String_opt notes else Some []) of
        (Some cn, Some ts, Some si, Some nt) \<Rightarrow>
          Some (join [CHR 0x0A]
            (map (\<lambda>l. case l of Some s \<Rightarrow> s | None \<Rightarrow> [])
              (filter truthy_str
                [Some (''Dear '' @ cn @ '',''),
                 Some [],
                 Some ''We have noticed some changes in your financial activity and would like to offer support.'',
                 Some (''Our analysis indicates potential financial stress signals related to ''
                         @ toLowerCase ts @ ''.''),
                 Some [],
                 Some (''We would like to offer you the following support option: '' @ si @ ''.''),
                 Some [],
                 Some ''Please contact your relationship manager to discuss this further.'',
                 Some ''We are here to help you manage your finances effectively.'',
                 Some [],
                 Some ''Kind regards,'',
                 Some ''Financial Support Team'',
                 (if truthy notes then Some [] else None),
                 (if truthy notes then Some (''Officer Notes: '' @ nt) else None)])))
      | _ \<Rightarrow> None)"

text \<open>
  \<^verbatim>\<open>
  app.post("/api/send-intervention", async (req, res) => {
    if (hasMissingSmtpConfig()) {
      return res.status(500).send("Missing SMTP configuration in .env");
    }
    const { ... } = req.body || {};
    if (!customerId || !customerName || !topSignal || !selectedIntervention) {
      return res.status(400).send("Missing required email fields");
    }
    ...
    try {
      const transporter = nodemailer.createTransport({ ... });
      const info = await transporter.sendMail({
        from: smtpConfig.from, to: FIXED_TO_ADDRESS, subject, text, html,
      });
      return res.json({ messageId: info.messageId, to: FIXED_TO_ADDRESS });
    } catch (error) {
      const message = error instanceof Error ? error.message : "SMTP send failed";
      return res.status(500).send(message);
    }
  });
  \<close>
  The subject, the text and the \<open>html\<close> body are built between the check of the fields
  and the \<open>try\<close>, so that a \<open>TypeError\<close> raised there is not caught. \<open>sendMail\<close> stands
  for the transport that \<open>createTransport\<close> builds and its \<open>sendMail\<close> method. The handler
  returns what becomes of the request together with the list of the messages it handed
  to \<open>sendMail\<close>, in order.
\<close>

definition send_intervention ::
  "env \<Rightarrow> (mail \<Rightarrow> send_outcome) \<Rightarrow> req_body \<Rightarrow> relay_response \<times> mail list" where
  "send_intervention e sendMail body =
     (if hasMissingSmtpConfig (smtpConfig e)
      then (Send_text 500 ''Missing SMTP configuration in .env'', [])
      else
        (let customerId = request_field body ''customerId'';
             customerName = request_field body ''customerName'';
             topSignal = request_field body ''topSignal'';
             selectedIntervention = request_field body ''selectedIntervention'';
             notes = request_field body ''officerNotes''
         in if \<not> truthy customerId \<or> \<not> truthy customerName \<or> \<not> truthy topSignal
               \<or> \<not> truthy selectedIntervention
            then (Send_text 400 ''Missing required email fields'', [])
            else
              (case (email_subject customerId,
                     email_text customerName topSignal selectedIntervention notes) of
                 (Some subj, Some tx) \<Rightarrow>
                   (let m = \<lparr>mail_from = from_address (smtpConfig e),
                             mail_to = FIXED_TO_ADDRESS e,
                             subject = subj,
                             mail_text = tx\<rparr>
                    in case sendMail m of
                         Sent messageId \<Rightarrow>
                           (Send_json 200
                              (JObj [(''messageId'', JStr messageId),
                                     (''to'', JStr (FIXED_TO_ADDRESS e))]), [m])
                       | SendFailed error \<Rightarrow>
                           (Send_text 500
                              (if instanceof_Error error
                               then (case error_message error of
                                       Some s \<Rightarrow> s
                                     | None \<Rightarrow> ''undefined'')
                               else ''SMTP send failed''), [m]))
               | _ \<Rightarrow> (Throws_TypeError, []))))"

text \<open>Example inputs: a complete and an empty configuration, and three request bodies.\<close>

definition complete_env :: env where
  "complete_env =
     \<lparr>SMTP_HOST = Some ''smtp.example.com'', SMTP_USER = Some ''relay@example.com'',
      SMTP_PASS = Some ''secret'', SMTP_FROM = None, FIXED_TO_ADDRESS_env = None\<rparr>"

definition empty_env :: env where
  "empty_env =
     \<lparr>SMTP_HOST = None, SMTP_USER = None, SMTP_PASS = None, SMTP_FROM = None,
      FIXED_TO_ADDRESS_env = None\<rparr>"

definition valid_body :: req_body where
  "valid_body =
     Body_object
       [(''customerId'', JStr ''CUST_7''), (''customerName'', JStr ''CUST_7''),
        (''topSignal'', JStr ''Salary_Delay_Days''),
        (''selectedIntervention'', JStr ''EMI date shift''),
        (''officerNotes'', JStr [])]"

definition body_without_intervention :: req_body where
  "body_without_intervention =
     Body_object
       [(''customerId'', JStr ''CUST_7''), (''customerName'', JStr ''CUST_7''),
        (''topSignal'', JStr ''Salary_Delay_Days'')]"

definition body_with_object_id :: req_body where
  "body_with_object_id =
     Body_object
       [(''customerId'', JObj [(''toString'', JNum 1)]), (''customerName'', JStr ''CUST_7''),
        (''topSignal'', JStr ''Salary_Delay_Days''),
        (''selectedIntervention'', JStr ''EMI date shift'')]"

definition accepting_provider :: "mail \<Rightarrow> send_outcome" where
  "accepting_provider m = Sent ''<msg-1@example.com>''"

definition failing_provider :: "mail \<Rightarrow> send_outcome" where
  "failing_provider m = SendFailed (Error ''Connection timeout'')"

section \<open>The synthetic data generator\<close>

text \<open>
  The module \<^verbatim>\<open>src/lib/mockData.ts\<close>. \<open>rnd k\<close> is the result of the \<open>k\<close>-th call of
  \<^verbatim>\<open>Math.random()\<close>, a number in \<open>[0, 1)\<close>; the last argument of every drawing function
  is the number of calls made before it, and the second component of its result the
  number of calls made after it.
\<close>

type_synonym rng = "nat \<Rightarrow> real"

definition firstNames :: "string list" where
  "firstNames =
     [''James'', ''Sarah'', ''Michael'', ''Emma'', ''David'', ''Olivia'', ''Robert'',
      ''Sophia'', ''William'', ''Isabella'', ''John'', ''Mia'', ''Richard'',
      ''Charlotte'', ''Thomas'', ''Amelia'', ''Daniel'', ''Emily'', ''Matthew'',
      ''Abigail'', ''Charles'', ''Evelyn'', ''Joseph'', ''Harper'', ''Andrew'',
      ''Ella'', ''Christopher'', ''Grace'', ''George'', ''Victoria'', ''Edward'',
      ''Lily'', ''Henry'', ''Chloe'', ''Benjamin'', ''Zoe'', ''Samuel'', ''Hannah'',
      ''Alexander'', ''Aria'', ''Nathan'', ''Lucy'', ''Patrick'', ''Nora'',
      ''Simon'', ''Stella'', ''Peter'', ''Layla'', ''Mark'', ''Riley'']"

definition lastNames :: "string list" where
  "lastNames =
     [''Smith'', ''Johnson'', ''Williams'', ''Brown'', ''Jones'', ''Garcia'',
      ''Miller'', ''Davis'', ''Rodriguez'', ''Martinez'', ''Hernandez'', ''Lopez'',
      ''Gonzalez'', ''Wilson'', ''Anderson'', ''Thomas'', ''Taylor'', ''Moore'',
      ''Jackson'', ''Martin'', ''Lee'', ''Perez'', ''Thompson'', ''White'',
      ''Harris'', ''Sanchez'', ''Clark'', ''Ramirez'', ''Lewis'', ''Robinson'',
      ''Walker'', ''Young'', ''Allen'', ''King'', ''Wright'', ''Scott'', ''Torres'',
      ''Nguyen'', ''Hill'', ''Flores'', ''Green'', ''Adams'', ''Nelson'', ''Baker'',
      ''Hall'', ''Rivera'', ''Campbell'', ''Mitchell'', ''Carter'', ''Roberts'']"

definition signals :: "string list" where
  "signals =
     [''Salary credit delay shift'', ''Savings balance decline'',
      ''Credit utilization spike'', ''ATM withdrawal increase'',
      ''Missed utility payments'', ''Reduced discretionary spending'',
      ''Overdraft frequency increase'', ''Payment pattern irregularity'',
      ''Balance volatility increase'', ''Direct debit bounce'']"

definition interventionTypes :: "string list" where
  "interventionTypes =
     [''Payment holiday offer'', ''EMI date shift'', ''Temporary EMI reduction'',
      ''Restructuring discussion'', ''Auto-debit retry scheduling'']"

definition officers :: "string list" where
  "officers =
     [''A. Thompson'', ''R. Patel'', ''M. Chen'', ''S. Williams'', ''J. Rodriguez'',
      ''K. Singh'', ''L. Brown'', ''D. Wilson'']"

text \<open>
  \<^verbatim>\<open>
  function rand(min: number, max: number) {
    return Math.floor(Math.random() * (max - min + 1)) + min;
  }
  function randFloat(min: number, max: number, decimals = 2) {
    return parseFloat((Math.random() * (max - min) + min).toFixed(decimals));
  }
  function pickRandom<T>(arr: T[]): T {
    return arr[rand(0, arr.length - 1)];
  }
  \<close>
  Every call of \<open>rand\<close> in the module has integer bounds. \<open>toFixed d x\<close> is the number
  that \<open>parseFloat(x.toFixed(d))\<close> reads back: \<open>x\<close> rounded to \<open>d\<close> decimals, a tie going
  away from zero. \<open>pickRandom\<close> reads inside the array whenever the array is not empty
  and the draw is in \<open>[0, 1)\<close> (lemma \<open>pickRandom_in_set\<close>); all arrays it is given are
  non-empty constants.
\<close>

definition rand :: "rng \<Rightarrow> int \<Rightarrow> int \<Rightarrow> nat \<Rightarrow> int \<times> nat" where
  "rand rnd mn mx k = (\<lfloor>rnd k * of_int (mx - mn + 1)\<rfloor> + mn, Suc k)"

definition toFixed :: "nat \<Rightarrow> real \<Rightarrow> real" where
  "toFixed decimals x =
     (if x < 0 then - (of_int \<lfloor>- x * 10 ^ decimals + 1 / 2\<rfloor> / 10 ^ decimals)
      else of_int \<lfloor>x * 10 ^ decimals + 1 / 2\<rfloor> / 10 ^ decimals)"

definition randFloat :: "rng \<Rightarrow> real \<Rightarrow> real \<Rightarrow> nat \<Rightarrow> nat \<Rightarrow> real \<times> nat" where
  "randFloat rnd mn mx decimals k = (toFixed decimals (rnd k * (mx - mn) + mn), Suc k)"

definition pickRandom :: "rng \<Rightarrow> 'a list \<Rightarrow> nat \<Rightarrow> 'a \<times> nat" where
  "pickRandom rnd arr k =
     (let (i, k) = rand rnd 0 (int (length arr) - 1) k in (arr ! nat i, k))"

text \<open>
  \<^verbatim>\<open>
  function generateTimeSeries(days: number, baseValue: number, volatility: number,
                              trend: number = 0) {
    const data: { date: string; value: number }[] = [];
    let value = baseValue;
    const now = new Date();
    for (let i = days; i >= 0; i--) {
      const d = new Date(now);
      d.setDate(d.getDate() - i);
      value += trend + (Math.random() - 0.5) * volatility;
      value = Math.max(0, value);
      data.push({ date: d.toISOString().split("T")[0], value: parseFloat(value.toFixed(2)) });
    }
    return data;
  }
  \<close>
  \<open>days\<close> is an integer (every call passes 60). The loop is \<open>generateTimeSeries_loop\<close>,
  with the loop variable \<open>i\<close>, the running \<open>value\<close> and the array \<open>data\<close> as arguments.
\<close>

datatype reldate = DaysAgo int | MonthsAgo int

record ts_point = valued +
  date :: reldate

function generateTimeSeries_loop ::
  "rng \<Rightarrow> real \<Rightarrow> real \<Rightarrow> int \<Rightarrow> real \<Rightarrow> ts_point list \<Rightarrow> nat \<Rightarrow> ts_point list \<times> nat" where
  "generateTimeSeries_loop rnd volatility trend i v data k =
     (if i \<ge> 0 then
        (let v = v + (trend + (rnd k - 0.5) * volatility);
             v = max 0 v
         in generateTimeSeries_loop rnd volatility trend (i - 1) v
              (data @ [\<lparr>val = toFixed 2 v, date = DaysAgo i\<rparr>]) (Suc k))
      else (data, k))"
  by pat_completeness auto
termination
  by (relation "measure (\<lambda>(rnd, volatility, trend, i, v, data, k). nat (i + 1))") auto

declare generateTimeSeries_loop.simps [simp del]

definition generateTimeSeries ::
  "rng \<Rightarrow> int \<Rightarrow> real \<Rightarrow> real \<Rightarrow> real \<Rightarrow> nat \<Rightarrow> ts_point list \<times> nat" where
  "generateTimeSeries rnd days baseValue volatility trend k =
     generateTimeSeries_loop rnd volatility trend days baseValue [] k"

text \<open>
  \<^verbatim>\<open>
  export type RiskCategory = "High" | "Moderate" | "Low" | "Early Stress";
  function getRiskCategory(score: number): RiskCategory {
    if (score >= 75) return "High";
    if (score >= 50) return "Moderate";
    if (score >= 30) return "Early Stress";
    return "Low";
  }
  \<close>
  \<open>InterventionStatus\<close> is the same union of literals as on the alerts page.
\<close>

datatype RiskCategory = High | Moderate | Low | Early_Stress

definition getRiskCategory :: "real \<Rightarrow> RiskCategory" where
  "getRiskCategory score =
     (if score \<ge> 75 then High
      else if score \<ge> 50 then Moderate
      else if score \<ge> 30 then Early_Stress
      else Low)"

text \<open>
  The record types of \<open>Customer\<close>. Field names that two record types share in the source
  carry a prefix here (\<open>ir_\<close>, \<open>dev_\<close>, \<open>pay_\<close>); \<open>cust_id\<close> is the field \<open>id\<close>. A
  character outside ASCII is written as its UTF-8 bytes.
\<close>

datatype direction = positive | negative

datatype signal_strength = Strong | Moderate_strength | Weak

datatype payment_status = on_time | late | missed

record InterventionRecord =
  ir_date :: reldate
  ir_type :: string
  officerNotes :: string
  ir_status :: InterventionStatus

record shap_value = feature_entry +
  direction :: direction

record deviation_row =
  dev_feature :: string
  current :: int
  baseline :: int
  deviation :: real
  signalStrength :: signal_strength

record payment =
  pay_date :: reldate
  amount :: int
  pay_status :: payment_status

record Customer =
  cust_id :: string
  name :: string
  email :: string
  age :: int
  accountType :: string
  riskScore :: int
  riskCategory :: RiskCategory
  topSignal :: string
  interventionStatus :: InterventionStatus
  interventionHistory :: "InterventionRecord list"
  officerAssigned :: string
  monthlyIncome :: int
  outstandingBalance :: int
  creditUtilization :: real
  savingsBalance :: int
  riskScoreTrend :: "ts_point list"
  savingsBalanceTrend :: "ts_point list"
  salaryDelayTrend :: "ts_point list"
  creditUtilizationTrend :: "ts_point list"
  atmWithdrawalTrend :: "ts_point list"
  shapValues :: "shap_value list"
  deviations :: "deviation_row list"
  paymentHistory :: "payment list"
  originationScore :: int
  daysPastDue :: int
  liquidityStressIndex :: real

text \<open>
  \<open>Array.from({ length: n }, (_, i) => f(i))\<close> calls \<open>f\<close> for \<open>i = 0, ..., n - 1\<close> in this
  order; the calls share the random source.
\<close>

fun Array_from_loop :: "(nat \<Rightarrow> nat \<Rightarrow> 'a \<times> nat) \<Rightarrow> nat list \<Rightarrow> nat \<Rightarrow> 'a list \<times> nat" where
  "Array_from_loop f [] k = ([], k)"
| "Array_from_loop f (i # is) k =
     (let (x, k) = f i k;
          (xs, k) = Array_from_loop f is k
      in (x # xs, k))"

definition Array_from :: "nat \<Rightarrow> (nat \<Rightarrow> nat \<Rightarrow> 'a \<times> nat) \<Rightarrow> nat \<Rightarrow> 'a list \<times> nat" where
  "Array_from n f k = Array_from_loop f [0..<n] k"

text \<open>
  \<open>generateCustomer(index)\<close>, statement by statement. The draws are made in the order in
  which JavaScript evaluates the source: the local constants first, then the properties
  of the returned object literal from top to bottom, the arguments of a call before the
  call. The head of the function reads
  \<^verbatim>\<open>
  const firstName = pickRandom(firstNames);
  const lastName = pickRandom(lastNames);
  const riskScore = rand(5, 98);
  const riskCategory = getRiskCategory(riskScore);
  const topSignal = pickRandom(signals);
  const statuses: InterventionStatus[] = ["none", "none", "none", "offered", "accepted", "declined"];
  const interventionStatus = riskScore > 50 ? pickRandom(statuses) : "none";
  const monthlyIncome = rand(2000, 12000);
  const creditUtil = randFloat(0.1, 0.95);
  const savBal = rand(500, 50000);
  \<close>
  and the payment history is
  \<^verbatim>\<open>
  const paymentHistory = Array.from({ length: 12 }, (_, i) => {
    const d = new Date();
    d.setMonth(d.getMonth() - (11 - i));
    const statuses: ("on-time" | "late" | "missed")[] = riskScore > 60
      ? ["on-time", "on-time", "late", "late", "missed"]
      : ["on-time", "on-time", "on-time", "on-time", "late"];
    return { date: d.toISOString().split("T")[0], amount: rand(200, 1500),
             status: pickRandom(statuses) };
  });
  \<close>
\<close>

definition generatePayment :: "rng \<Rightarrow> int \<Rightarrow> nat \<Rightarrow> nat \<Rightarrow> payment \<times> nat" where
  "generatePayment rnd score i k =
     (let statuses = (if score > 60 then [on_time, on_time, late, late, missed]
                      else [on_time, on_time, on_time, on_time, late]);
          (amt, k) = rand rnd 200 1500 k;
          (st, k) = pickRandom rnd statuses k
      in (\<lparr>pay_date = MonthsAgo (11 - int i), amount = amt, pay_status = st\<rparr>, k))"

definition generateCustomer :: "rng \<Rightarrow> nat \<Rightarrow> nat \<Rightarrow> Customer \<times> nat" where
  "generateCustomer rnd index k =
     (let (firstName, k) = pickRandom rnd firstNames k;
          (lastName, k) = pickRandom rnd lastNames k;
          (score, k) = rand rnd 5 98 k;
          category = getRiskCategory (of_int score);
          (signal, k) = pickRandom rnd signals k;
          statuses = [none, none, none, offered, accepted, declined];
          (istatus, k) = (if score > 50 then pickRandom rnd statuses k else (none, k));
          (income, k) = rand rnd 2000 12000 k;
          (creditUtil, k) = randFloat rnd 0.1 0.95 2 k;
          (savBal, k) = rand rnd 500 50000 k;
          (history, k) =
            (if istatus \<noteq> none then
               (let (d, k) = rand rnd 1 30 k;
                    (t, k) = pickRandom rnd interventionTypes k
                in ([\<lparr>ir_date = DaysAgo d, ir_type = t,
                       officerNotes = ''Initial review conducted. Customer contacted.'',
                       ir_status = istatus\<rparr>], k))
             else ([], k));
          (s1, k) = randFloat rnd (- 0.3) 0.8 2 k;
          (s2, k) = randFloat rnd (- 0.2) 0.7 2 k;
          (s3, k) = randFloat rnd (- 0.4) 0.6 2 k;
          (s4, k) = randFloat rnd (- 0.3) 0.5 2 k;
          (s5, k) = randFloat rnd (- 0.6) 0.3 2 k;
          (s6, k) = randFloat rnd (- 0.2) 0.4 2 k;
          (s7, k) = randFloat rnd (- 0.3) 0.5 2 k;
          (s8, k) = randFloat rnd (- 0.5) 0.2 2 k;
          shapFeatures =
            [\<lparr>val = s1, feature = ''Salary Credit Delay'',
              direction = (if score > 50 then positive else negative)\<rparr>,
             \<lparr>val = s2, feature = ''Savings Decline Rate'',
              direction = (if score > 40 then positive else negative)\<rparr>,
             \<lparr>val = s3, feature = ''Credit Utilization'',
              direction = (if creditUtil > 0.6 then positive else negative)\<rparr>,
             \<lparr>val = s4, feature = ''ATM Withdrawal Freq'',
              direction = (if score > 60 then positive else negative)\<rparr>,
             \<lparr>val = s5, feature = ''Payment Regularity'',
              direction = (if score > 50 then positive else negative)\<rparr>,
             \<lparr>val = s6, feature = ''Balance Volatility'',
              direction = (if score > 45 then positive else negative)\<rparr>,
             \<lparr>val = s7, feature = ''Overdraft Usage'',
              direction = (if score > 55 then positive else negative)\<rparr>,
             \<lparr>val = s8, feature = ''Discretionary Spend'', direction = negative\<rparr>];
          (c1, k) = rand rnd 1 15 k;
          (b1, k) = rand rnd 1 5 k;
          (d1, k) = randFloat rnd 0 10 2 k;
          (b2, k) = rand rnd 1000 5000 k;
          (d2, k) = randFloat rnd (- 40) (- 5) 2 k;
          (b3, k) = rand rnd 20 40 k;
          (d3, k) = randFloat rnd 5 50 2 k;
          (c4, k) = rand rnd 5 25 k;
          (b4, k) = rand rnd 3 8 k;
          (d4, k) = randFloat rnd 10 80 2 k;
          (c5, k) = rand rnd 0 4 k;
          (d5, k) = randFloat rnd 0 100 2 k;
          devs =
            [\<lparr>dev_feature = ''Salary Credit Day'', current = c1, baseline = b1, deviation = d1,
              signalStrength = (if score > 60 then Strong
                                else if score > 40 then Moderate_strength else Weak)\<rparr>,
             \<lparr>dev_feature = ''Savings Balance ('' @ [CHR 0xC2, CHR 0xA3] @ '')'', current = savBal,
              baseline = savBal + b2, deviation = d2,
              signalStrength = (if score > 50 then Strong else Moderate_strength)\<rparr>,
             \<lparr>dev_feature = ''Credit Utilization (%)'',
              current = \<lfloor>creditUtil * 100 + 1 / 2\<rfloor>, baseline = b3, deviation = d3,
              signalStrength = (if creditUtil > 0.7 then Strong else Weak)\<rparr>,
             \<lparr>dev_feature = ''ATM Withdrawals/Month'', current = c4, baseline = b4,
              deviation = d4,
              signalStrength = (if score > 55 then Moderate_strength else Weak)\<rparr>,
             \<lparr>dev_feature = ''Missed Payments (90d)'', current = c5, baseline = 0,
              deviation = d5,
              signalStrength = (if score > 65 then Strong else Weak)\<rparr>];
          (payments, k) = Array_from 12 (generatePayment rnd score) k;
          (years, k) = rand rnd 22 68 k;
          (account, k) =
            pickRandom rnd
              [''Personal Loan'', ''Mortgage'', ''Credit Card'', ''Auto Loan'', ''Overdraft''] k;
          (officer, k) = pickRandom rnd officers k;
          (outstanding, k) = rand rnd 5000 200000 k;
          (r1, k) = rand rnd 5 20 k;
          (trend1, k) =
            generateTimeSeries rnd 60 (of_int score - of_int r1) 3
              (if score > 50 then 0.15 else - 0.05) k;
          (r2, k) = rand rnd 2000 8000 k;
          (trend2, k) =
            generateTimeSeries rnd 60 (of_int savBal + of_int r2) 500
              (if score > 50 then - 80 else 20) k;
          (r3, k) = rand rnd 0 3 k;
          (trend3, k) =
            generateTimeSeries rnd 60 (of_int r3) 1.5 (if score > 50 then 0.05 else 0) k;
          (r4, k) = rand rnd 5 15 k;
          (trend4, k) =
            generateTimeSeries rnd 60 (creditUtil * 100 - of_int r4) 3
              (if score > 50 then 0.2 else - 0.05) k;
          (r5, k) = rand rnd 5 10 k;
          (trend5, k) =
            generateTimeSeries rnd 60 (of_int r5) 2 (if score > 55 then 0.1 else 0) k;
          (origination, k) = rand rnd 300 850 k;
          (dpd, k) = (if score > 60 then rand rnd 0 30 k else (0, k));
          (stress, k) = randFloat rnd 0 1 2 k
      in (\<lparr>cust_id = ''CUS-'' @ padStart 5 CHR ''0'' (showNat (index + 1)),
           name = firstName @ '' '' @ lastName,
           email = toLowerCase firstName @ ''.'' @ toLowerCase lastName @ ''@email.com'',
           age = years,
           accountType = account,
           riskScore = score,
           riskCategory = category,
           topSignal = signal,
           interventionStatus = istatus,
           interventionHistory = history,
           officerAssigned = officer,
           monthlyIncome = income,
           outstandingBalance = outstanding,
           creditUtilization = creditUtil,
           savingsBalance = savBal,
           riskScoreTrend = trend1,
           savingsBalanceTrend = trend2,
           salaryDelayTrend = trend3,
           creditUtilizationTrend = trend4,
           atmWithdrawalTrend = trend5,
           shapValues = shapFeatures,
           deviations = devs,
           paymentHistory = payments,
           originationScore = origination,
           daysPastDue = dpd,
           liquidityStressIndex = stress\<rparr>, k))"

text \<open>
  \<^verbatim>\<open>
  export const customers: Customer[] = Array.from({ length: 120 }, (_, i) => generateCustomer(i));
  \<close>
  This is the first statement of the module that draws.
\<close>

definition customers :: "rng \<Rightarrow> Customer list" where
  "customers rnd = fst (Array_from 120 (generateCustomer rnd) 0)"

text \<open>
  The bucketing rule of the specification for real data, in the specification's words:
  a probability \<open>p\<close> is LOW when \<open>p < 0.40\<close>, MEDIUM when \<open>0.40 \<le> p < 0.70\<close> and HIGH when
  \<open>p \<ge> 0.70\<close>. \<open>same_bucket\<close> reads the categories of the generator as the levels they are
  named after; "Early Stress" has no counterpart among the three levels.
\<close>

definition spec_bucketing :: "real \<Rightarrow> risk_level" where
  "spec_bucketing p = (if p < 0.40 then LOW else if p < 0.70 then MEDIUM else HIGH)"

fun same_bucket :: "RiskCategory \<Rightarrow> risk_level \<Rightarrow> bool" where
  "same_bucket High l = (l = HIGH)"
| "same_bucket Moderate l = (l = MEDIUM)"
| "same_bucket Low l = (l = LOW)"
| "same_bucket Early_Stress l = False"

text \<open>A random source that returns the same number at every call.\<close>

definition constant_draws :: "real \<Rightarrow> rng" where
  "constant_draws r = (\<lambda>k. r)"

chapter \<open>Properties\<close>

section \<open>Bucketing of the delinquency probability\<close>

text \<open>What \<open>getDelinquencyRiskLevel\<close> computes: the boundaries are 0.40 and 0.75.\<close>

lemma getDelinquencyRiskLevel_Low_iff:
  "getDelinquencyRiskLevel p = ''Low Risk'' \<longleftrightarrow> p < 0.40"
  by (simp add: getDelinquencyRiskLevel_def Let_def)

lemma getDelinquencyRiskLevel_Medium_iff:
  "getDelinquencyRiskLevel p = ''Medium Risk'' \<longleftrightarrow> 0.40 \<le> p \<and> p < 0.75"
  by (auto simp add: getDelinquencyRiskLevel_def Let_def)

lemma getDelinquencyRiskLevel_High_iff:
  "getDelinquencyRiskLevel p = ''High Risk'' \<longleftrightarrow> 0.75 \<le> p"
  by (simp add: getDelinquencyRiskLevel_def Let_def)

text \<open>
  Claim C2. The claim reads: for every probability \<open>p\<close> in \<open>[0,1]\<close> the bucketing yields
  LOW iff \<open>p < 0.40\<close>, MEDIUM iff \<open>0.40 \<le> p < 0.70\<close> and HIGH iff \<open>p \<ge> 0.70\<close>. The code
  compares the percentage with 75, not 70: at \<open>p = 0.72\<close>, which the claim places in
  HIGH, \<open>getDelinquencyRiskLevel\<close> answers "Medium Risk". The sibling helper, given the
  same 72 percent, answers with its top level, and the classification table that the
  prediction page prints reads "HIGH RISK: 70% - 100% probability".
\<close>

theorem getDelinquencyRiskLevel_at_072:
  "(0::real) \<le> 0.72 \<and> (0.72::real) \<le> 1 \<and> (0.70::real) \<le> 0.72
   \<and> getDelinquencyRiskLevel 0.72 = ''Medium Risk''
   \<and> getDelinquencyRiskLevel 0.72 \<noteq> ''High Risk''
   \<and> getBehaviouralRiskLevel (0.72 * 100) = ''Strong''"
  by (simp add: getDelinquencyRiskLevel_def getBehaviouralRiskLevel_def Let_def)

section \<open>The comparator sort\<close>

lemma mset_insert_cmp: "mset (insert_cmp cmp x ys) = add_mset x (mset ys)"
  by (induction ys) simp_all

lemma mset_sort_cmp: "mset (sort_cmp cmp xs) = mset xs"
  by (induction xs) (simp_all add: sort_cmp_def mset_insert_cmp)

lemma set_insert_cmp: "set (insert_cmp cmp x ys) = insert x (set ys)"
  by (induction ys) auto

lemma set_sort_cmp: "set (sort_cmp cmp xs) = set xs"
  by (induction xs) (simp_all add: sort_cmp_def set_insert_cmp)

text \<open>Both comparators of the pages have the form \<open>key b - key a\<close>: descending by \<open>key\<close>.\<close>

lemma sorted_insert_desc:
  fixes key :: "'a \<Rightarrow> real"
  assumes "sorted_wrt (\<lambda>a b. key a \<ge> key b) ys"
  shows "sorted_wrt (\<lambda>a b. key a \<ge> key b) (insert_cmp (\<lambda>a b. key b - key a) x ys)"
  using assms
proof (induction ys)
  case Nil
  then show ?case by simp
next
  case (Cons y ys)
  show ?case
  proof (cases "key y - key x \<le> 0")
    case True
    with Cons.prems show ?thesis by (auto intro: order_trans)
  next
    case False
    with Cons show ?thesis by (auto simp: set_insert_cmp)
  qed
qed

lemma sorted_sort_desc:
  fixes key :: "'a \<Rightarrow> real"
  shows "sorted_wrt (\<lambda>a b. key a \<ge> key b) (sort_cmp (\<lambda>a b. key b - key a) xs)"
proof (induction xs)
  case Nil
  show ?case by (simp add: sort_cmp_def)
next
  case (Cons x xs)
  have "sort_cmp (\<lambda>a b. key b - key a) (x # xs)
        = insert_cmp (\<lambda>a b. key b - key a) x (sort_cmp (\<lambda>a b. key b - key a) xs)"
    by (simp add: sort_cmp_def)
  with Cons sorted_insert_desc [of key] show ?case by simp
qed

lemma sorted_wrt_adjacent:
  assumes "sorted_wrt P xs" and "Suc i < length xs"
  shows "P (xs ! i) (xs ! Suc i)"
  using assms by (simp add: sorted_wrt_iff_nth_less)

section \<open>The contributing-features series\<close>

text \<open>
  Claim C9. For every fetched drilldown the derived series depends on the drilldown's
  \<open>contributing_features\<close> only (two drilldowns with the same map give the same series),
  it holds exactly the entries of that map (as a multiset: nothing is lost, added or
  duplicated), and every adjacent pair is in descending order of absolute value.
\<close>

theorem contributingSeries_sorted_entries:
  "(contributing_features d = contributing_features d'
      \<longrightarrow> contributingSeries (Some d) = contributingSeries (Some d'))
   \<and> mset (contributingSeries (Some d))
       = mset (map (\<lambda>(f, v). \<lparr>val = v, feature = f\<rparr>) (contributing_features d))
   \<and> (\<forall>i. Suc i < length (contributingSeries (Some d))
         \<longrightarrow> \<bar>val (contributingSeries (Some d) ! i)\<bar>
               \<ge> \<bar>val (contributingSeries (Some d) ! Suc i)\<bar>)"
proof (intro conjI)
  show "contributing_features d = contributing_features d'
     \<longrightarrow> contributingSeries (Some d) = contributingSeries (Some d')"
    by (simp add: contributingSeries_def)
  show "mset (contributingSeries (Some d))
     = mset (map (\<lambda>(f, v). \<lparr>val = v, feature = f\<rparr>) (contributing_features d))"
    by (simp add: contributingSeries_def mset_sort_cmp)
  have "sorted_wrt (\<lambda>a b. \<bar>val a\<bar> \<ge> \<bar>val b\<bar>) (contributingSeries (Some d))"
    using sorted_sort_desc [of "\<lambda>e. \<bar>val e\<bar>"] by (simp add: contributingSeries_def)
  then show "\<forall>i. Suc i < length (contributingSeries (Some d))
     \<longrightarrow> \<bar>val (contributingSeries (Some d) ! i)\<bar> \<ge> \<bar>val (contributingSeries (Some d) ! Suc i)\<bar>"
    using sorted_wrt_adjacent by blast
qed

lemma contributingSeries_example:
  "contributingSeries (Some example_drilldown)
     = [\<lparr>val = - 0.5, feature = ''Savings_Drop_%''\<rparr>,
        \<lparr>val = 0.3, feature = ''Past_EMI_Delays_6M''\<rparr>,
        \<lparr>val = 0.1, feature = ''Salary_Delay_Days''\<rparr>]"
  by (simp add: contributingSeries_def example_drilldown_def sort_cmp_def)

theorem contributingSeries_sorted_entries_witness:
  "contributing_features example_drilldown = contributing_features example_drilldown
   \<and> Suc 0 < length (contributingSeries (Some example_drilldown))
   \<and> \<bar>val (contributingSeries (Some example_drilldown) ! 0)\<bar>
       \<ge> \<bar>val (contributingSeries (Some example_drilldown) ! Suc 0)\<bar>
   \<and> map feature (contributingSeries (Some example_drilldown))
       = [''Savings_Drop_%'', ''Past_EMI_Delays_6M'', ''Salary_Delay_Days'']"
proof -
  have len: "Suc 0 < length (contributingSeries (Some example_drilldown))"
    by (simp add: contributingSeries_example)
  from contributingSeries_sorted_entries [of example_drilldown example_drilldown] len
  have "\<bar>val (contributingSeries (Some example_drilldown) ! 0)\<bar>
       \<ge> \<bar>val (contributingSeries (Some example_drilldown) ! Suc 0)\<bar>"
    by blast
  with len show ?thesis by (simp add: contributingSeries_example)
qed

section \<open>The alerts table\<close>

text \<open>
  Claim C10. For every fetched customer list, every value of the two filters and every
  map of intervention statuses, the table holds exactly the customers with
  \<open>risk_probability \<ge> 0.3\<close> that pass both filters (as a multiset of the fetched list),
  in descending order of \<open>risk_probability\<close>; a customer below 0.3 is never in it.
\<close>

theorem alertCustomers_exact_sorted:
  "mset (alertCustomers fetched riskFilter statusFilter interventionStatuses)
     = filter_mset (\<lambda>c. risk_probability c \<ge> 0.3
          \<and> (riskFilter = ''all'' \<or> risk_level_string (risk_category c) = riskFilter)
          \<and> (statusFilter = ''all''
               \<or> status_string (getStatus interventionStatuses c) = statusFilter))
         (mset fetched)
   \<and> sorted_wrt (\<lambda>a b. risk_probability a \<ge> risk_probability b)
        (alertCustomers fetched riskFilter statusFilter interventionStatuses)
   \<and> (\<forall>c. risk_probability c < 0.3
          \<longrightarrow> c \<notin> set (alertCustomers fetched riskFilter statusFilter interventionStatuses))"
proof (intro conjI)
  show "mset (alertCustomers fetched riskFilter statusFilter interventionStatuses)
     = filter_mset (\<lambda>c. risk_probability c \<ge> 0.3
          \<and> (riskFilter = ''all'' \<or> risk_level_string (risk_category c) = riskFilter)
          \<and> (statusFilter = ''all''
               \<or> status_string (getStatus interventionStatuses c) = statusFilter))
         (mset fetched)"
    unfolding alertCustomers_def getStatus_def Let_def mset_filter mset_sort_cmp
      filter_filter_mset
    by (rule filter_mset_cong [OF refl]) auto
  have "sorted_wrt (\<lambda>a b. risk_probability a \<ge> risk_probability b)
          (sort_cmp (\<lambda>a b. risk_probability b - risk_probability a)
             (filter (\<lambda>c. risk_probability c \<ge> 0.3) fetched))"
    by (rule sorted_sort_desc)
  then show "sorted_wrt (\<lambda>a b. risk_probability a \<ge> risk_probability b)
        (alertCustomers fetched riskFilter statusFilter interventionStatuses)"
    unfolding alertCustomers_def by (intro sorted_wrt_filter)
  show "\<forall>c. risk_probability c < 0.3
          \<longrightarrow> c \<notin> set (alertCustomers fetched riskFilter statusFilter interventionStatuses)"
    by (auto simp add: alertCustomers_def set_sort_cmp)
qed

lemma alertCustomers_example:
  "map customer_id (alertCustomers example_risk_list ''all'' ''none'' Map.empty)
     = [''CUST_3'', ''CUST_2'', ''CUST_4'']"
  "map customer_id
     (alertCustomers example_risk_list ''LOW'' ''all'' [''CUST_4'' \<mapsto> offered])
     = [''CUST_4'']"
  "alertCustomers example_risk_list ''LOW'' ''none'' [''CUST_4'' \<mapsto> offered] = []"
  by (simp_all add: alertCustomers_def example_risk_list_def sort_cmp_def)

theorem alertCustomers_exact_sorted_witness:
  "risk_probability (example_risk_list ! 0) < 0.3
   \<and> example_risk_list ! 0 \<notin> set (alertCustomers example_risk_list ''all'' ''none'' Map.empty)
   \<and> map customer_id (alertCustomers example_risk_list ''all'' ''none'' Map.empty)
       = [''CUST_3'', ''CUST_2'', ''CUST_4'']"
proof -
  have low: "risk_probability (example_risk_list ! 0) < 0.3"
    by (simp add: example_risk_list_def)
  from alertCustomers_exact_sorted [of example_risk_list "''all''" "''none''" Map.empty] low
  have "example_risk_list ! 0 \<notin> set (alertCustomers example_risk_list ''all'' ''none'' Map.empty)"
    by blast
  with low show ?thesis by (simp add: alertCustomers_example)
qed

section \<open>The random helpers\<close>

lemma rand_range:
  assumes "0 \<le> rnd k" and "rnd k < 1" and "mn \<le> mx"
  shows "mn \<le> fst (rand rnd mn mx k) \<and> fst (rand rnd mn mx k) \<le> mx"
proof -
  define n where "n = mx - mn + 1"
  have n: "0 < real_of_int n" using assms(3) by (simp add: n_def)
  have lo: "0 \<le> rnd k * real_of_int n" using assms(1) n by simp
  have hi: "rnd k * real_of_int n < real_of_int n"
    using assms(2) n by simp
  have "0 \<le> \<lfloor>rnd k * real_of_int n\<rfloor>" using lo by simp
  moreover have "\<lfloor>rnd k * real_of_int n\<rfloor> < n" using hi by (simp only: floor_less_iff)
  moreover have "fst (rand rnd mn mx k) = \<lfloor>rnd k * real_of_int n\<rfloor> + mn"
    by (simp only: rand_def n_def fst_conv)
  ultimately show ?thesis by (simp add: n_def)
qed

lemma snd_rand [simp]: "snd (rand rnd mn mx k) = Suc k"
  by (simp add: rand_def)

lemma snd_randFloat [simp]: "snd (randFloat rnd mn mx d k) = Suc k"
  by (simp add: randFloat_def)

lemma snd_pickRandom [simp]: "snd (pickRandom rnd arr k) = Suc k"
  by (simp add: pickRandom_def split_def)

lemma pickRandom_in_set:
  assumes "0 \<le> rnd k" and "rnd k < 1" and "arr \<noteq> []"
  shows "fst (pickRandom rnd arr k) \<in> set arr"
proof -
  have "0 \<le> int (length arr) - 1" using assms(3) by (cases arr) simp_all
  from rand_range [of rnd k 0 "int (length arr) - 1"] assms(1,2) this
  have "nat (fst (rand rnd 0 (int (length arr) - 1) k)) < length arr" by linarith
  then show ?thesis by (simp add: pickRandom_def split_def)
qed

section \<open>The random-walk series\<close>

lemma toFixed_nonneg: "0 \<le> x \<Longrightarrow> 0 \<le> toFixed d x"
  by (simp add: toFixed_def)

lemma generateTimeSeries_loop_length:
  "length (fst (generateTimeSeries_loop rnd volatility trend i v data k))
     = length data + nat (i + 1)"
proof (induction rnd volatility trend i v data k rule: generateTimeSeries_loop.induct)
  case (1 rnd volatility trend i v data k)
  show ?case
  proof (cases "i \<ge> 0")
    case True
    with "1.IH" [OF True refl refl] show ?thesis
      by (subst generateTimeSeries_loop.simps) (simp add: Let_def nat_add_distrib)
  next
    case False
    then show ?thesis by (subst generateTimeSeries_loop.simps) simp
  qed
qed

lemma generateTimeSeries_loop_nonneg:
  "\<forall>p \<in> set data. 0 \<le> val p
     \<Longrightarrow> \<forall>p \<in> set (fst (generateTimeSeries_loop rnd volatility trend i v data k)). 0 \<le> val p"
proof (induction rnd volatility trend i v data k rule: generateTimeSeries_loop.induct)
  case (1 rnd volatility trend i v data k)
  show ?case
  proof (cases "i \<ge> 0")
    case True
    let ?v = "max 0 (v + (trend + (rnd k - 0.5) * volatility))"
    have "\<forall>p \<in> set (data @ [\<lparr>val = toFixed 2 ?v, date = DaysAgo i\<rparr>]). 0 \<le> val p"
      using "1.prems" by (simp add: toFixed_nonneg)
    from "1.IH" [OF True refl refl this] True show ?thesis
      by (subst generateTimeSeries_loop.simps) (simp add: Let_def)
  next
    case False
    with "1.prems" show ?thesis by (subst generateTimeSeries_loop.simps) simp
  qed
qed

lemma generateTimeSeries_loop_draws:
  "snd (generateTimeSeries_loop rnd volatility trend i v data k) = k + nat (i + 1)"
proof (induction rnd volatility trend i v data k rule: generateTimeSeries_loop.induct)
  case (1 rnd volatility trend i v data k)
  show ?case
  proof (cases "i \<ge> 0")
    case True
    with "1.IH" [OF True refl refl] show ?thesis
      by (subst generateTimeSeries_loop.simps) (simp add: Let_def nat_add_distrib)
  next
    case False
    then show ?thesis by (subst generateTimeSeries_loop.simps) simp
  qed
qed

text \<open>
  Claim C7. For every \<open>days \<ge> 0\<close>, every sequence of random draws (and every base value,
  volatility and trend) the series has exactly \<open>days + 1\<close> points and no value in it is
  negative.
\<close>

theorem generateTimeSeries_length_nonneg:
  assumes "0 \<le> days"
  shows "int (length (fst (generateTimeSeries rnd days baseValue volatility trend k))) = days + 1
         \<and> (\<forall>p \<in> set (fst (generateTimeSeries rnd days baseValue volatility trend k)).
               0 \<le> val p)"
proof
  show "int (length (fst (generateTimeSeries rnd days baseValue volatility trend k))) = days + 1"
    using assms by (simp add: generateTimeSeries_def generateTimeSeries_loop_length)
  show "\<forall>p \<in> set (fst (generateTimeSeries rnd days baseValue volatility trend k)). 0 \<le> val p"
    unfolding generateTimeSeries_def by (rule generateTimeSeries_loop_nonneg) simp
qed

lemma generateTimeSeries_example:
  "fst (generateTimeSeries (constant_draws 0) 2 0.7 1 0.25 0)
     = [\<lparr>val = 0.45, date = DaysAgo 2\<rparr>, \<lparr>val = 0.2, date = DaysAgo 1\<rparr>,
        \<lparr>val = 0, date = DaysAgo 0\<rparr>]"
  by (simp add: generateTimeSeries_def generateTimeSeries_loop.simps constant_draws_def
      toFixed_def Let_def)

theorem generateTimeSeries_length_nonneg_witness:
  "(0::int) \<le> 2
   \<and> int (length (fst (generateTimeSeries (constant_draws 0) 2 0.7 1 0.25 0))) = 2 + 1
   \<and> 0 \<le> val (last (fst (generateTimeSeries (constant_draws 0) 2 0.7 1 0.25 0)))
   \<and> map val (fst (generateTimeSeries (constant_draws 0) 2 0.7 1 0.25 0)) = [0.45, 0.2, 0]"
proof -
  have days: "(0::int) \<le> 2" by simp
  from days generateTimeSeries_length_nonneg
    [where days = 2 and rnd = "constant_draws 0" and baseValue = "0.7" and volatility = 1
       and trend = "0.25" and k = 0]
  have len: "int (length (fst (generateTimeSeries (constant_draws 0) 2 0.7 1 0.25 0))) = 2 + 1"
    and pos: "\<forall>p \<in> set (fst (generateTimeSeries (constant_draws 0) 2 0.7 1 0.25 0)). 0 \<le> val p"
    by blast+
  from len have "fst (generateTimeSeries (constant_draws 0) 2 0.7 1 0.25 0) \<noteq> []" by auto
  then have "last (fst (generateTimeSeries (constant_draws 0) 2 0.7 1 0.25 0))
      \<in> set (fst (generateTimeSeries (constant_draws 0) 2 0.7 1 0.25 0))"
    by (rule last_in_set)
  with pos have last: "0 \<le> val (last (fst (generateTimeSeries (constant_draws 0) 2 0.7 1 0.25 0)))"
    by blast
  have vals: "map val (fst (generateTimeSeries (constant_draws 0) 2 0.7 1 0.25 0)) = [0.45, 0.2, 0]"
    by (subst generateTimeSeries_example) simp
  from days len last vals show ?thesis by blast
qed

section \<open>The generated customers\<close>

text \<open>
  The score is the third draw of \<open>generateCustomer\<close>, after the two draws for the names,
  and the category is computed from it.
\<close>

lemma generateCustomer_score:
  "riskScore (fst (generateCustomer rnd index k)) = fst (rand rnd 5 98 (Suc (Suc k)))
   \<and> riskCategory (fst (generateCustomer rnd index k))
       = getRiskCategory (of_int (fst (rand rnd 5 98 (Suc (Suc k)))))"
  by (simp add: generateCustomer_def Let_def split_def)

lemma length_Array_from_loop: "length (fst (Array_from_loop f js k)) = length js"
  by (induction js arbitrary: k) (simp_all add: split_def Let_def)

lemma set_Array_from_loop:
  "x \<in> set (fst (Array_from_loop f js k)) \<Longrightarrow> \<exists>i k'. x = fst (f i k')"
proof (induction js arbitrary: k)
  case Nil
  then show ?case by simp
next
  case (Cons j js)
  then show ?case by (auto simp add: split_def Let_def)
qed

lemma length_customers: "length (customers rnd) = 120"
  by (simp add: customers_def Array_from_def length_Array_from_loop)

lemma customers_generated:
  "c \<in> set (customers rnd) \<Longrightarrow> \<exists>i k. c = fst (generateCustomer rnd i k)"
  unfolding customers_def Array_from_def by (rule set_Array_from_loop)

lemma hd_customers: "hd (customers rnd) = fst (generateCustomer rnd 0 0)"
proof -
  have "[0..<120] = 0 # [1..<120]" by (simp add: upt_conv_Cons)
  then show ?thesis by (simp add: customers_def Array_from_def split_def Let_def)
qed

lemma getRiskCategory_cases:
  "(getRiskCategory (of_int s) = High \<longleftrightarrow> 75 \<le> s)
   \<and> (getRiskCategory (of_int s) = Moderate \<longleftrightarrow> 50 \<le> s \<and> s < 75)
   \<and> (getRiskCategory (of_int s) = Early_Stress \<longleftrightarrow> 30 \<le> s \<and> s < 50)
   \<and> (getRiskCategory (of_int s) = Low \<longleftrightarrow> s < 30)"
  by (auto simp add: getRiskCategory_def)

text \<open>
  Claim C8. For every sequence of random draws (each in \<open>[0, 1)\<close>, as \<open>Math.random\<close>
  returns them) the module builds exactly 120 customer records, and the \<open>riskScore\<close> of
  each is an integer between 5 and 98.
\<close>

theorem customers_count_and_score_range:
  assumes "\<forall>k. 0 \<le> rnd k \<and> rnd k < 1"
  shows "length (customers rnd) = 120
         \<and> (\<forall>c \<in> set (customers rnd). 5 \<le> riskScore c \<and> riskScore c \<le> 98)"
proof (intro conjI ballI)
  show "length (customers rnd) = 120" by (rule length_customers)
next
  fix c assume "c \<in> set (customers rnd)"
  then obtain i k where c: "c = fst (generateCustomer rnd i k)"
    using customers_generated by blast
  have "5 \<le> fst (rand rnd 5 98 (Suc (Suc k))) \<and> fst (rand rnd 5 98 (Suc (Suc k))) \<le> 98"
    using assms by (intro rand_range) simp_all
  then show "5 \<le> riskScore c" and "riskScore c \<le> 98"
    by (simp_all add: c generateCustomer_score)
qed

lemma first_score_half: "riskScore (hd (customers (constant_draws (1 / 2)))) = 52"
  by (simp add: hd_customers generateCustomer_score rand_def constant_draws_def)

theorem customers_count_and_score_range_witness:
  "(\<forall>k. 0 \<le> constant_draws (1 / 2) k \<and> constant_draws (1 / 2) k < 1)
   \<and> length (customers (constant_draws (1 / 2))) = 120
   \<and> 5 \<le> riskScore (hd (customers (constant_draws (1 / 2))))
   \<and> riskScore (hd (customers (constant_draws (1 / 2)))) \<le> 98
   \<and> riskScore (hd (customers (constant_draws (1 / 2)))) = 52"
proof -
  have draws: "\<forall>k. 0 \<le> constant_draws (1 / 2) k \<and> constant_draws (1 / 2) k < 1"
    by (simp add: constant_draws_def)
  from customers_count_and_score_range [OF draws]
  have len: "length (customers (constant_draws (1 / 2))) = 120"
    and rng: "\<forall>c \<in> set (customers (constant_draws (1 / 2))). 5 \<le> riskScore c \<and> riskScore c \<le> 98"
    by blast+
  from len have "hd (customers (constant_draws (1 / 2))) \<in> set (customers (constant_draws (1 / 2)))"
    by (intro hd_in_set) auto
  with rng have "5 \<le> riskScore (hd (customers (constant_draws (1 / 2))))
    \<and> riskScore (hd (customers (constant_draws (1 / 2)))) \<le> 98" by blast
  with draws len show ?thesis by (simp add: first_score_half)
qed

text \<open>
  Claim C3, as stated: the category of every synthetic record is the one that the
  thresholds for real data (LOW below 0.40, MEDIUM below 0.70, HIGH from 0.70) give
  for its score. It fails: with every draw equal to 0.43 the first record has score 45
  and category "Early Stress", where the rule for real data gives MEDIUM (and
  \<open>getDelinquencyRiskLevel\<close> gives "Medium Risk").
\<close>

theorem synthetic_category_counterexample:
  "riskScore (hd (customers (constant_draws 0.43))) = 45
   \<and> riskCategory (hd (customers (constant_draws 0.43))) = Early_Stress
   \<and> spec_bucketing (45 / 100) = MEDIUM
   \<and> getDelinquencyRiskLevel (45 / 100) = ''Medium Risk''
   \<and> \<not> same_bucket (riskCategory (hd (customers (constant_draws 0.43))))
         (spec_bucketing (of_int (riskScore (hd (customers (constant_draws 0.43)))) / 100))"
  by (simp add: hd_customers generateCustomer_score rand_def constant_draws_def
      getRiskCategory_def spec_bucketing_def getDelinquencyRiskLevel_def)

text \<open>
  Claim C3, amended: the category of every synthetic record is \<open>getRiskCategory\<close> of its
  score, the generator's own rule with four categories on the scale 0..100: High from
  75, Moderate from 50, Early Stress from 30, Low below 30.
\<close>

theorem synthetic_category_own_rule:
  "\<forall>c \<in> set (customers rnd).
     riskCategory c = getRiskCategory (of_int (riskScore c))
     \<and> (riskCategory c = High \<longleftrightarrow> 75 \<le> riskScore c)
     \<and> (riskCategory c = Moderate \<longleftrightarrow> 50 \<le> riskScore c \<and> riskScore c < 75)
     \<and> (riskCategory c = Early_Stress \<longleftrightarrow> 30 \<le> riskScore c \<and> riskScore c < 50)
     \<and> (riskCategory c = Low \<longleftrightarrow> riskScore c < 30)"
proof
  fix c assume "c \<in> set (customers rnd)"
  then obtain i k where c: "c = fst (generateCustomer rnd i k)"
    using customers_generated by blast
  have eq: "riskCategory c = getRiskCategory (of_int (riskScore c))"
    by (simp add: c generateCustomer_score)
  show "riskCategory c = getRiskCategory (of_int (riskScore c))
     \<and> (riskCategory c = High \<longleftrightarrow> 75 \<le> riskScore c)
     \<and> (riskCategory c = Moderate \<longleftrightarrow> 50 \<le> riskScore c \<and> riskScore c < 75)
     \<and> (riskCategory c = Early_Stress \<longleftrightarrow> 30 \<le> riskScore c \<and> riskScore c < 50)
     \<and> (riskCategory c = Low \<longleftrightarrow> riskScore c < 30)"
    unfolding eq using getRiskCategory_cases [of "riskScore c"] by simp
qed

theorem synthetic_category_own_rule_witness:
  "hd (customers (constant_draws 0.43)) \<in> set (customers (constant_draws 0.43))
   \<and> riskCategory (hd (customers (constant_draws 0.43)))
       = getRiskCategory (of_int (riskScore (hd (customers (constant_draws 0.43)))))
   \<and> riskScore (hd (customers (constant_draws 0.43))) = 45
   \<and> riskCategory (hd (customers (constant_draws 0.43))) = Early_Stress"
proof -
  have mem: "hd (customers (constant_draws 0.43)) \<in> set (customers (constant_draws 0.43))"
    using length_customers [of "constant_draws 0.43"] by (intro hd_in_set) auto
  with synthetic_category_own_rule [of "constant_draws 0.43"]
  have "riskCategory (hd (customers (constant_draws 0.43)))
       = getRiskCategory (of_int (riskScore (hd (customers (constant_draws 0.43)))))"
    by blast
  moreover have "riskScore (hd (customers (constant_draws 0.43))) = 45"
    by (simp add: hd_customers generateCustomer_score rand_def constant_draws_def)
  ultimately show ?thesis using mem by (simp add: getRiskCategory_def)
qed

section \<open>Error detail in the backend client\<close>

lemma request_with_detail_non_ok:
  assumes "fetchWithTimeout req = Resolved response"
    and "\<not> ok response"
    and "parsed response = Inr error"
    and "get_member error ''detail'' = Some (JStr d)"
    and "d \<noteq> []"
  shows "request_with_detail fetchWithTimeout req fallback = Inl (Error d)"
proof -
  from assms(4) have "error \<noteq> JNull" by auto
  with assms show ?thesis
    by (cases error) (simp_all add: request_with_detail_def rethrow_def Let_def)
qed

lemma request_with_fallback_non_ok:
  assumes "fetchWithTimeout req = Resolved response"
    and "\<not> ok response"
  shows "request_with_fallback fetchWithTimeout req fallback = Inl (Error fallback)"
proof -
  have "''HTTP '' @ showNat (status response) \<noteq> ''REQUEST_TIMEOUT''"
    by simp
  with assms show ?thesis
    by (simp add: request_with_fallback_def normalizeFetchError_def)
qed

text \<open>
  Claim C1, as stated: every public operation that receives a non-2xx response whose
  JSON body has a \<open>detail\<close> field throws an \<open>Error\<close> whose message is that detail. It
  fails for \<open>getPortfolioSummary\<close>: on status 404 with body \<open>{"detail":"not found"}\<close> the
  operation throws \<open>new Error("HTTP 404")\<close> without reading the body, and its \<open>catch\<close>
  clause replaces that error by one with the fallback message.
\<close>

theorem portfolio_summary_detail_counterexample:
  "\<not> ok not_found_response
   \<and> parsed not_found_response = Inr (JObj [(''detail'', JStr ''not found'')])
   \<and> getPortfolioSummary not_found_backend = Inl (Error ''Failed to load portfolio summary'')
   \<and> getPortfolioSummary not_found_backend \<noteq> Inl (Error ''not found'')"
  by (simp add: getPortfolioSummary_def request_with_fallback_def not_found_backend_def
      not_found_response_def ok_def normalizeFetchError_def digit_char_def)

text \<open>
  Claim C1, amended: when the backend answers with a non-2xx response whose JSON body
  has a non-empty string \<open>detail\<close>, the four operations that take a customer id
  (\<open>getCustomerData\<close>, \<open>predictRisk\<close>, \<open>getCustomerDrilldown\<close>,
  \<open>predictAndSendIntervention\<close>) throw an \<open>Error\<close> whose message is that detail; each of
  the other seven operations throws an \<open>Error\<close> with its own fixed fallback message.
\<close>

theorem detail_preserved_by_customer_operations:
  assumes "\<forall>req. fetchWithTimeout req = Resolved response"
    and "\<not> ok response"
    and "parsed response = Inr error"
    and "get_member error ''detail'' = Some (JStr d)"
    and "d \<noteq> []"
  shows "getCustomerData fetchWithTimeout customerId = Inl (Error d)
       \<and> predictRisk fetchWithTimeout customerId = Inl (Error d)
       \<and> getCustomerDrilldown fetchWithTimeout customerId = Inl (Error d)
       \<and> predictAndSendIntervention fetchWithTimeout customerId = Inl (Error d)
       \<and> checkBackendHealth fetchWithTimeout = Inl (Error
            ''Unable to connect to backend. Ensure FastAPI server is running on http://localhost:8000'')
       \<and> getCustomerList fetchWithTimeout limit
            = Inl (Error ''Unable to retrieve customer list from backend'')
       \<and> getPortfolioSummary fetchWithTimeout = Inl (Error ''Failed to load portfolio summary'')
       \<and> getRiskTrend fetchWithTimeout = Inl (Error ''Failed to load risk trend data'')
       \<and> getFeatureImportance fetchWithTimeout = Inl (Error ''Failed to load feature importance'')
       \<and> getPortfolioHeatmap fetchWithTimeout = Inl (Error ''Failed to load heatmap data'')
       \<and> getCustomerRiskList fetchWithTimeout limit
            = Inl (Error ''Failed to load customer risk list'')"
proof -
  have f: "fetchWithTimeout req = Resolved response" for req using assms(1) by simp
  note d = request_with_detail_non_ok [OF f assms(2-5)]
  note b = request_with_fallback_non_ok [OF f assms(2)]
  show ?thesis
    unfolding getCustomerData_def predictRisk_def getCustomerDrilldown_def
      predictAndSendIntervention_def checkBackendHealth_def getCustomerList_def
      getPortfolioSummary_def getRiskTrend_def getFeatureImportance_def
      getPortfolioHeatmap_def getCustomerRiskList_def
    by (simp only: d b simp_thms)
qed

theorem detail_preserved_by_customer_operations_witness:
  "(\<forall>req. not_found_backend req = Resolved not_found_response)
   \<and> \<not> ok not_found_response
   \<and> get_member (JObj [(''detail'', JStr ''not found'')]) ''detail'' = Some (JStr ''not found'')
   \<and> getCustomerData not_found_backend ''CUST_9'' = Inl (Error ''not found'')
   \<and> predictRisk not_found_backend ''CUST_9'' = Inl (Error ''not found'')"
proof -
  have a: "\<forall>req. not_found_backend req = Resolved not_found_response"
    by (simp add: not_found_backend_def)
  have b: "\<not> ok not_found_response" by (simp add: not_found_response_def ok_def)
  have c: "parsed not_found_response = Inr (JObj [(''detail'', JStr ''not found'')])"
    by (simp add: not_found_response_def)
  have d: "get_member (JObj [(''detail'', JStr ''not found'')]) ''detail'' = Some (JStr ''not found'')"
    by simp
  have e: "''not found'' \<noteq> []" by simp
  from detail_preserved_by_customer_operations [OF a b c d e, of "''CUST_9''"] a b d
  show ?thesis by blast
qed

section \<open>Timeouts in the backend client\<close>

text \<open>
  Claim C5 speaks of the 8000 ms deadline and of the race between \<open>fetch\<close> and the
  timer inside \<open>fetchWithTimeout\<close>; both belong to the event loop and the clock of the
  browser and are not part of this embedding. What the embedding does state is what
  the operations make of the two errors that the expiry of the timer can raise
  (\<open>new Error("REQUEST_TIMEOUT")\<close> from the timer callback, the \<open>AbortError\<close> of the
  aborted \<open>fetch\<close>). The seven operations with a fallback turn both into the timeout
  message. The four operations with a detail rethrow whatever is an instance of
  \<open>Error\<close>, so that \<open>normalizeFetchError\<close> is not reached and the caller sees the raw
  error.
\<close>

lemma timeout_with_fallback:
  assumes "fetchWithTimeout req = Rejected error"
    and "error = Error ''REQUEST_TIMEOUT'' \<or> error = DOMException ''AbortError'' m"
  shows "request_with_fallback fetchWithTimeout req fallback
     = Inl (Error ''Backend request timed out. Ensure FastAPI is running on http://localhost:8000'')"
  using assms by (auto simp add: request_with_fallback_def normalizeFetchError_def)

lemma timeout_with_detail:
  assumes "fetchWithTimeout req = Rejected error"
    and "error = Error ''REQUEST_TIMEOUT'' \<or> error = DOMException ''AbortError'' m"
  shows "request_with_detail fetchWithTimeout req fallback = Inl error"
  using assms by (auto simp add: request_with_detail_def rethrow_def)

section \<open>The email relay\<close>

text \<open>
  Claim C4, as stated: a request without \<open>selectedIntervention\<close> is answered with
  status 400. It fails when the SMTP configuration is incomplete: that check comes
  first and answers 500.
\<close>

theorem missing_field_counterexample:
  "request_field body_without_intervention ''selectedIntervention'' = None
   \<and> send_intervention empty_env accepting_provider body_without_intervention
       = (Send_text 500 ''Missing SMTP configuration in .env'', [])
   \<and> response_status
        (fst (send_intervention empty_env accepting_provider body_without_intervention))
       \<noteq> Some 400"
  by (simp add: send_intervention_def empty_env_def smtpConfig_def hasMissingSmtpConfig_def
      truthy_str_def or_str_def request_field_def body_without_intervention_def)

text \<open>
  Claim C4, amended: a request that reaches the handler (the JSON parser hands on a
  request with no parsed body, with a JSON object or with a JSON array) and in which a
  required field is missing (or falsy) is never passed to the SMTP transport; it is
  answered with status 400 when the SMTP configuration is complete, and with status 500
  when it is not.
\<close>

theorem missing_field_rejected_without_send:
  assumes "\<not> truthy (request_field body ''customerId'')
         \<or> \<not> truthy (request_field body ''customerName'')
         \<or> \<not> truthy (request_field body ''topSignal'')
         \<or> \<not> truthy (request_field body ''selectedIntervention'')"
  shows "snd (send_intervention e sendMail body) = []
       \<and> fst (send_intervention e sendMail body)
           = (if hasMissingSmtpConfig (smtpConfig e)
              then Send_text 500 ''Missing SMTP configuration in .env''
              else Send_text 400 ''Missing required email fields'')"
  using assms by (auto simp add: send_intervention_def Let_def)

theorem missing_field_rejected_without_send_witness:
  "\<not> truthy (request_field body_without_intervention ''selectedIntervention'')
   \<and> \<not> hasMissingSmtpConfig (smtpConfig complete_env)
   \<and> send_intervention complete_env accepting_provider body_without_intervention
       = (Send_text 400 ''Missing required email fields'', [])"
proof -
  have miss: "\<not> truthy (request_field body_without_intervention ''selectedIntervention'')"
    by (simp add: request_field_def body_without_intervention_def)
  have cfg: "\<not> hasMissingSmtpConfig (smtpConfig complete_env)"
    by (simp add: complete_env_def smtpConfig_def hasMissingSmtpConfig_def truthy_str_def
        or_str_def)
  from miss have "\<not> truthy (request_field body_without_intervention ''customerId'')
         \<or> \<not> truthy (request_field body_without_intervention ''customerName'')
         \<or> \<not> truthy (request_field body_without_intervention ''topSignal'')
         \<or> \<not> truthy (request_field body_without_intervention ''selectedIntervention'')"
    by blast
  from missing_field_rejected_without_send [OF this, of complete_env accepting_provider] cfg
  have "send_intervention complete_env accepting_provider body_without_intervention
       = (Send_text 400 ''Missing required email fields'', [])"
    by (simp add: prod_eq_iff)
  with miss cfg show ?thesis by blast
qed

text \<open>The same holds of a request without a body and of one whose body is an array.\<close>

lemma no_body_rejected:
  "send_intervention complete_env accepting_provider No_body
     = (Send_text 400 ''Missing required email fields'', [])"
  "send_intervention complete_env accepting_provider (Body_array [JStr ''CUST_7''])
     = (Send_text 400 ''Missing required email fields'', [])"
  by (simp_all add: send_intervention_def complete_env_def smtpConfig_def
      hasMissingSmtpConfig_def truthy_str_def or_str_def request_field_def)

text \<open>
  Claim C6, as stated: with a complete configuration and all required fields the relay
  answers with \<open>{messageId, to}\<close>. It fails when the provider rejects the message: the
  relay has made its one call of \<open>sendMail\<close> and answers 500 with the provider's error.
\<close>

theorem provider_failure_counterexample:
  "\<not> hasMissingSmtpConfig (smtpConfig complete_env)
   \<and> truthy (request_field valid_body ''customerId'')
   \<and> truthy (request_field valid_body ''customerName'')
   \<and> truthy (request_field valid_body ''topSignal'')
   \<and> truthy (request_field valid_body ''selectedIntervention'')
   \<and> fst (send_intervention complete_env failing_provider valid_body)
       = Send_text 500 ''Connection timeout''"
  by (simp add: send_intervention_def complete_env_def smtpConfig_def hasMissingSmtpConfig_def
      truthy_str_def or_str_def request_field_def valid_body_def failing_provider_def Let_def
      email_subject_def email_text_def)

text \<open>
  A second way in which it fails: a required field that is truthy but cannot be
  converted to a string (an object with a member \<open>toString\<close>) makes the handler throw
  while it builds the subject, before the \<open>try\<close>; nothing is sent and nothing is answered
  by the handler.
\<close>

lemma unconvertible_field_throws:
  "truthy (request_field body_with_object_id ''customerId'')
   \<and> send_intervention complete_env accepting_provider body_with_object_id
       = (Throws_TypeError, [])"
  by (simp add: send_intervention_def complete_env_def smtpConfig_def hasMissingSmtpConfig_def
      truthy_str_def or_str_def request_field_def body_with_object_id_def Let_def
      email_subject_def email_text_def)

text \<open>
  Claim C6, amended: with a complete configuration, all four required fields truthy
  and convertible to a string (as every string is), and \<open>officerNotes\<close> missing, falsy or
  convertible to a string, the relay calls \<open>sendMail\<close> exactly once, with a message
  addressed to the fixed recipient; when the provider accepts the message the answer is
  the JSON object \<open>{messageId, to}\<close> with the provider's message id and the fixed
  recipient, and when the provider throws the answer has status 500 and carries the
  message of the error.
\<close>

theorem valid_request_sends_once:
  assumes "\<not> hasMissingSmtpConfig (smtpConfig e)"
    and "truthy (request_field body ''customerId'')"
    and "truthy (request_field body ''customerName'')"
    and "truthy (request_field body ''topSignal'')"
    and "truthy (request_field body ''selectedIntervention'')"
    and "js_String_opt (request_field body ''customerId'') \<noteq> None"
    and "js_String_opt (request_field body ''customerName'') \<noteq> None"
    and "js_String_opt (request_field body ''topSignal'') \<noteq> None"
    and "js_String_opt (request_field body ''selectedIntervention'') \<noteq> None"
    and "\<not> truthy (request_field body ''officerNotes'')
         \<or> js_String_opt (request_field body ''officerNotes'') \<noteq> None"
  shows "\<exists>m. snd (send_intervention e sendMail body) = [m]
           \<and> mail_to m = FIXED_TO_ADDRESS e
           \<and> mail_from m = from_address (smtpConfig e)
           \<and> (\<forall>messageId. sendMail m = Sent messageId \<longrightarrow>
                 fst (send_intervention e sendMail body)
                   = Send_json 200 (JObj [(''messageId'', JStr messageId),
                                          (''to'', JStr (FIXED_TO_ADDRESS e))]))
           \<and> (\<forall>error. sendMail m = SendFailed error \<longrightarrow>
                 fst (send_intervention e sendMail body)
                   = Send_text 500
                       (if instanceof_Error error
                        then (case error_message error of Some s \<Rightarrow> s | None \<Rightarrow> ''undefined'')
                        else ''SMTP send failed''))"
proof -
  from assms(6) obtain subj where subj:
    "email_subject (request_field body ''customerId'') = Some subj"
    by (auto simp add: email_subject_def)
  from assms(7) obtain cn where cn:
    "js_String_opt (request_field body ''customerName'') = Some cn" by blast
  from assms(8) obtain ts where ts:
    "js_String_opt (request_field body ''topSignal'') = Some ts" by blast
  from assms(9) obtain si where si:
    "js_String_opt (request_field body ''selectedIntervention'') = Some si" by blast
  from assms(10) obtain nt where nt:
    "(if truthy (request_field body ''officerNotes'')
      then js_String_opt (request_field body ''officerNotes'') else Some []) = Some nt"
    by (cases "truthy (request_field body ''officerNotes'')") auto
  have "\<exists>tx. email_text (request_field body ''customerName'') (request_field body ''topSignal'')
       (request_field body ''selectedIntervention'') (request_field body ''officerNotes'')
     = Some tx"
    unfolding email_text_def cn ts si nt by simp
  then obtain tx where tx:
    "email_text (request_field body ''customerName'') (request_field body ''topSignal'')
       (request_field body ''selectedIntervention'') (request_field body ''officerNotes'')
     = Some tx" ..
  define m where "m = \<lparr>mail_from = from_address (smtpConfig e), mail_to = FIXED_TO_ADDRESS e,
    subject = subj, mail_text = tx\<rparr>"
  have run: "send_intervention e sendMail body =
     (case sendMail m of
        Sent messageId \<Rightarrow>
          (Send_json 200 (JObj [(''messageId'', JStr messageId),
                                (''to'', JStr (FIXED_TO_ADDRESS e))]), [m])
      | SendFailed error \<Rightarrow>
          (Send_text 500
             (if instanceof_Error error
              then (case error_message error of Some s \<Rightarrow> s | None \<Rightarrow> ''undefined'')
              else ''SMTP send failed''), [m]))"
    unfolding send_intervention_def Let_def subj tx m_def using assms(1-5) by simp
  have "snd (send_intervention e sendMail body) = [m]"
    unfolding run by (cases "sendMail m") simp_all
  moreover have "mail_to m = FIXED_TO_ADDRESS e" and "mail_from m = from_address (smtpConfig e)"
    by (simp_all add: m_def)
  moreover have "\<forall>messageId. sendMail m = Sent messageId \<longrightarrow>
      fst (send_intervention e sendMail body)
        = Send_json 200 (JObj [(''messageId'', JStr messageId),
                               (''to'', JStr (FIXED_TO_ADDRESS e))])"
    unfolding run by simp
  moreover have "\<forall>error. sendMail m = SendFailed error \<longrightarrow>
      fst (send_intervention e sendMail body)
        = Send_text 500
            (if instanceof_Error error
             then (case error_message error of Some s \<Rightarrow> s | None \<Rightarrow> ''undefined'')
             else ''SMTP send failed'')"
    unfolding run by simp
  ultimately show ?thesis by blast
qed

lemma valid_request_example:
  "send_intervention complete_env accepting_provider valid_body
     = (Send_json 200 (JObj [(''messageId'', JStr ''<msg-1@example.com>''),
                             (''to'', JStr ''sohamjagushte2@gmail.com'')]),
        [\<lparr>mail_from = Some ''relay@example.com'',
          mail_to = ''sohamjagushte2@gmail.com'',
          subject = ''Support Options Available '' @ [CHR 0xE2, CHR 0x80, CHR 0x94] @ '' CUST_7'',
          mail_text = join [CHR 0x0A]
            [''Dear CUST_7,'',
             ''We have noticed some changes in your financial activity and would like to offer support.'',
             ''Our analysis indicates potential financial stress signals related to salary_delay_days.'',
             ''We would like to offer you the following support option: EMI date shift.'',
             ''Please contact your relationship manager to discuss this further.'',
             ''We are here to help you manage your finances effectively.'',
             ''Kind regards,'',
             ''Financial Support Team'']\<rparr>])"
  by (simp add: send_intervention_def complete_env_def smtpConfig_def hasMissingSmtpConfig_def
      truthy_str_def or_str_def request_field_def valid_body_def accepting_provider_def Let_def
      FIXED_TO_ADDRESS_def email_subject_def email_text_def toLowerCase_def lower_char_def)

theorem valid_request_sends_once_witness:
  "\<not> hasMissingSmtpConfig (smtpConfig complete_env)
   \<and> truthy (request_field valid_body ''selectedIntervention'')
   \<and> js_String_opt (request_field valid_body ''selectedIntervention'') = Some ''EMI date shift''
   \<and> \<not> truthy (request_field valid_body ''officerNotes'')
   \<and> (\<exists>m. snd (send_intervention complete_env accepting_provider valid_body) = [m]
          \<and> mail_to m = ''sohamjagushte2@gmail.com'')
   \<and> fst (send_intervention complete_env accepting_provider valid_body)
       = Send_json 200 (JObj [(''messageId'', JStr ''<msg-1@example.com>''),
                              (''to'', JStr ''sohamjagushte2@gmail.com'')])"
proof -
  have cfg: "\<not> hasMissingSmtpConfig (smtpConfig complete_env)"
    by (simp add: complete_env_def smtpConfig_def hasMissingSmtpConfig_def truthy_str_def
        or_str_def)
  have f1: "truthy (request_field valid_body ''customerId'')"
    and f2: "truthy (request_field valid_body ''customerName'')"
    and f3: "truthy (request_field valid_body ''topSignal'')"
    and f4: "truthy (request_field valid_body ''selectedIntervention'')"
    by (simp_all add: request_field_def valid_body_def)
  have s1: "js_String_opt (request_field valid_body ''customerId'') \<noteq> None"
    and s2: "js_String_opt (request_field valid_body ''customerName'') \<noteq> None"
    and s3: "js_String_opt (request_field valid_body ''topSignal'') \<noteq> None"
    and s4: "js_String_opt (request_field valid_body ''selectedIntervention'') \<noteq> None"
    by (simp_all add: request_field_def valid_body_def)
  have s4': "js_String_opt (request_field valid_body ''selectedIntervention'')
      = Some ''EMI date shift''"
    by (simp add: request_field_def valid_body_def)
  have n: "\<not> truthy (request_field valid_body ''officerNotes'')"
    by (simp add: request_field_def valid_body_def)
  then have n': "\<not> truthy (request_field valid_body ''officerNotes'')
      \<or> js_String_opt (request_field valid_body ''officerNotes'') \<noteq> None"
    by blast
  have to: "FIXED_TO_ADDRESS complete_env = ''sohamjagushte2@gmail.com''"
    by (simp add: FIXED_TO_ADDRESS_def complete_env_def or_str_def truthy_str_def)
  from valid_request_sends_once [OF cfg f1 f2 f3 f4 s1 s2 s3 s4 n', of accepting_provider]
  obtain m where m: "snd (send_intervention complete_env accepting_provider valid_body) = [m]"
    and addr: "mail_to m = FIXED_TO_ADDRESS complete_env"
    and sent: "\<forall>messageId. accepting_provider m = Sent messageId \<longrightarrow>
                 fst (send_intervention complete_env accepting_provider valid_body)
                   = Send_json 200 (JObj [(''messageId'', JStr messageId),
                                          (''to'', JStr (FIXED_TO_ADDRESS complete_env))])"
    by blast
  have "accepting_provider m = Sent ''<msg-1@example.com>''"
    by (simp add: accepting_provider_def)
  with sent have "fst (send_intervention complete_env accepting_provider valid_body)
       = Send_json 200 (JObj [(''messageId'', JStr ''<msg-1@example.com>''),
                              (''to'', JStr (FIXED_TO_ADDRESS complete_env))])"
    by blast
  with cfg f4 s4' n m addr show ?thesis unfolding to by blast
qed

end
